theory Spec2Isabelle
  imports Main "HOL-Library.Word"
begin

unbundle bit_operations_syntax

section \<open>The three copies of the logger\<close>

text \<open>
  The repository holds three copies of the implementation file:
  \<^item> \<open>MiniEtwLog_h\<close>: the implementation document inside \<^verbatim>\<open>src/Log/MiniEtwLog.h\<close>
    (lines 66 to 300);
  \<^item> \<open>part_000_first\<close>: the first document of \<^verbatim>\<open>src/unnamed/part_000\<close> (lines 1 to 213);
  \<^item> \<open>part_000_second\<close>: the second document of \<^verbatim>\<open>src/unnamed/part_000\<close>
    (lines 213 to 435).
  Functions whose text is the same in the three copies are embedded once; where the copies
  differ, the definition takes the copy as a parameter or there is one definition per copy.
\<close>

datatype variant = MiniEtwLog_h | part_000_first | part_000_second

section \<open>Platform types and constants\<close>

text \<open>
  The integer types of the Windows SDK, on an x64 build: \<^verbatim>\<open>ULONG\<close> and the status codes
  have 32 bits, \<^verbatim>\<open>std::size_t\<close>, \<^verbatim>\<open>TRACEHANDLE\<close> and \<^verbatim>\<open>REGHANDLE\<close> have 64, a
  \<^verbatim>\<open>GUID\<close> has 128.
\<close>

type_synonym ULONG = "32 word"
type_synonym size_t = "64 word"
type_synonym TRACEHANDLE = "64 word"
type_synonym REGHANDLE = "64 word"
type_synonym GUID = "128 word"
type_synonym byte = "8 word"

text \<open>The values of the SDK's macros (winerror.h, evntrace.h, evntprov.h, wmistr.h).\<close>

definition ERROR_SUCCESS :: ULONG where
  "ERROR_SUCCESS = 0"

definition S_OK :: ULONG where
  "S_OK = 0"

definition ERROR_ALREADY_EXISTS :: ULONG where
  "ERROR_ALREADY_EXISTS = 183"

definition WNODE_FLAG_TRACED_GUID :: ULONG where
  "WNODE_FLAG_TRACED_GUID = 0x00020000"

definition EVENT_TRACE_FILE_MODE_SEQUENTIAL :: ULONG where
  "EVENT_TRACE_FILE_MODE_SEQUENTIAL = 0x00000001"

definition EVENT_TRACE_PRIVATE_LOGGER_MODE :: ULONG where
  "EVENT_TRACE_PRIVATE_LOGGER_MODE = 0x00000800"

definition EVENT_TRACE_PRIVATE_IN_PROC :: ULONG where
  "EVENT_TRACE_PRIVATE_IN_PROC = 0x00020000"

definition EVENT_CONTROL_CODE_DISABLE_PROVIDER :: ULONG where
  "EVENT_CONTROL_CODE_DISABLE_PROVIDER = 0"

definition EVENT_CONTROL_CODE_ENABLE_PROVIDER :: ULONG where
  "EVENT_CONTROL_CODE_ENABLE_PROVIDER = 1"

definition TRACE_LEVEL_INFORMATION :: "8 word" where
  "TRACE_LEVEL_INFORMATION = 4"

definition EVENT_TRACE_CONTROL_STOP :: ULONG where
  "EVENT_TRACE_CONTROL_STOP = 1"

text \<open>\<^verbatim>\<open>SUCCEEDED(hr)\<close> is \<^verbatim>\<open>((HRESULT)(hr)) >= 0\<close>: the code read as a signed 32-bit value.\<close>

definition SUCCEEDED :: "ULONG \<Rightarrow> bool" where
  "SUCCEEDED hr = (0 \<le> sint hr)"

text \<open>C strings: the terminator, and \<^verbatim>\<open>strlen\<close>, which counts up to the first terminator.\<close>

definition NUL :: char where
  "NUL = CHR 0x00"

definition strlen :: "string \<Rightarrow> nat" where
  "strlen s = length (takeWhile (\<lambda>c. c \<noteq> NUL) s)"

text \<open>\<^verbatim>\<open>std::string{s}.c_str()\<close>: the characters up to the first terminator.\<close>

definition c_str :: "string \<Rightarrow> string" where
  "c_str s = takeWhile (\<lambda>c. c \<noteq> NUL) s"

section \<open>The control block\<close>

text \<open>
  \<^verbatim>\<open>EVENT_TRACE_PROPERTIES\<close> and its \<^verbatim>\<open>WNODE_HEADER\<close>, with the fields the constructor
  assigns. Every other field of the two SDK structures keeps the zero that \<^verbatim>\<open>ZeroMemory\<close>
  wrote and is left out of the records.
\<close>

record WNODE_HEADER =
  Wnode_BufferSize :: ULONG
  Wnode_Guid :: GUID
  Wnode_ClientContext :: ULONG
  Wnode_Flags :: ULONG

record EVENT_TRACE_PROPERTIES =
  Wnode :: WNODE_HEADER
  BufferSize :: ULONG
  LogFileMode :: ULONG
  LogFileNameOffset :: ULONG
  LoggerNameOffset :: ULONG

record EventTracePropertiesWithBuffers =
  Properties :: EVENT_TRACE_PROPERTIES
  SessionName :: "char list"
  LogFilePath :: "char list"

text \<open>\<^verbatim>\<open>std::extent\<close> of the two trailing arrays, \<^verbatim>\<open>char[256]\<close> and \<^verbatim>\<open>char[1024]\<close>.\<close>

definition extent_SessionName :: nat where
  "extent_SessionName = 256"

definition extent_LogFilePath :: nat where
  "extent_LogFilePath = 1024"

text \<open>
  The layout of the block: \<^verbatim>\<open>sizeof(EVENT_TRACE_PROPERTIES)\<close> is 120 in the x64 SDK; the two
  character arrays follow it without padding.
\<close>

definition sizeof_EVENT_TRACE_PROPERTIES :: nat where
  "sizeof_EVENT_TRACE_PROPERTIES = 120"

definition offsetof_SessionName :: nat where
  "offsetof_SessionName = sizeof_EVENT_TRACE_PROPERTIES"

definition offsetof_LogFilePath :: nat where
  "offsetof_LogFilePath = offsetof_SessionName + extent_SessionName"

definition sizeof_EventTracePropertiesWithBuffers :: nat where
  "sizeof_EventTracePropertiesWithBuffers = offsetof_LogFilePath + extent_LogFilePath"

text \<open>\<^verbatim>\<open>::ZeroMemory(this, sizeof(EventTracePropertiesWithBuffers))\<close>.\<close>

definition ZeroMemory :: EventTracePropertiesWithBuffers where
  "ZeroMemory =
     \<lparr>Properties =
        \<lparr>Wnode = \<lparr>Wnode_BufferSize = 0, Wnode_Guid = 0, Wnode_ClientContext = 0, Wnode_Flags = 0\<rparr>,
         BufferSize = 0, LogFileMode = 0, LogFileNameOffset = 0, LoggerNameOffset = 0\<rparr>,
      SessionName = replicate extent_SessionName NUL,
      LogFilePath = replicate extent_LogFilePath NUL\<rparr>"

text \<open>
  How an operation ends when it does not return: a C++ exception (\<^verbatim>\<open>std::system_error\<close>
  built from the error code and the text handed to its constructor,
  \<^verbatim>\<open>std::filesystem::filesystem_error\<close>), a failed \<^verbatim>\<open>assert\<close> (the process aborts, no
  destructor runs), the dereference of a null pointer, or a return from a function that is
  declared \<^verbatim>\<open>__declspec(noreturn)\<close>. After the last two the behaviour of the program is
  undefined; the model ends the operation there. The assertions are modelled as compiled
  in (no \<^verbatim>\<open>NDEBUG\<close>).
\<close>

datatype failure =
    system_error ULONG string
  | filesystem_error ULONG
  | assertion_failed
  | null_dereference
  | returned_from_noreturn

text \<open>\<^verbatim>\<open>std::clamp<std::size_t>(v, lo, hi)\<close>.\<close>

definition clamp :: "size_t \<Rightarrow> size_t \<Rightarrow> size_t \<Rightarrow> size_t" where
  "clamp v lo hi = (if v < lo then lo else if hi < v then hi else v)"

definition c_maxBufferSize :: size_t where
  "c_maxBufferSize = 16384"

text \<open>
  \<^verbatim>\<open>SetLogFilePath\<close>: the assertion, then \<^verbatim>\<open>std::copy\<close> over the first bytes of the array;
  the bytes behind the copied ones keep their value.
\<close>

definition SetLogFilePath ::
  "EventTracePropertiesWithBuffers \<Rightarrow> string \<Rightarrow> failure + EventTracePropertiesWithBuffers" where
  "SetLogFilePath this logFilePath =
     (if length logFilePath \<le> extent_LogFilePath
      then Inr (this\<lparr>LogFilePath := logFilePath @ drop (length logFilePath) (LogFilePath this)\<rparr>)
      else Inl assertion_failed)"

text \<open>
  The constructor's statements before its call of \<^verbatim>\<open>SetLogFilePath\<close>. In
  \<^verbatim>\<open>src/Log/MiniEtwLog.h\<close> (lines 123 to 142) the identity is stored and three mode flags
  are set.
\<close>

definition EventTracePropertiesWithBuffers_init_h ::
  "GUID \<Rightarrow> size_t \<Rightarrow> EventTracePropertiesWithBuffers" where
  "EventTracePropertiesWithBuffers_init_h sessionId bufferSize =
     ZeroMemory\<lparr>Properties :=
       \<lparr>Wnode =
          \<lparr>Wnode_BufferSize = of_nat sizeof_EventTracePropertiesWithBuffers,
           Wnode_Guid = sessionId,
           Wnode_ClientContext = 1,
           Wnode_Flags = WNODE_FLAG_TRACED_GUID\<rparr>,
        BufferSize = ucast (clamp bufferSize 0 c_maxBufferSize),
        LogFileMode =
          EVENT_TRACE_FILE_MODE_SEQUENTIAL OR EVENT_TRACE_PRIVATE_LOGGER_MODE
            OR EVENT_TRACE_PRIVATE_IN_PROC,
        LogFileNameOffset = of_nat offsetof_LogFilePath,
        LoggerNameOffset = of_nat offsetof_SessionName\<rparr>\<rparr>"

text \<open>
  In both documents of \<^verbatim>\<open>src/unnamed/part_000\<close> (lines 56 to 71 and 268 to 283) the
  assignment of \<^verbatim>\<open>Wnode.Guid\<close> is commented out, so the field keeps the zero of
  \<^verbatim>\<open>ZeroMemory\<close>, and the mode is the sequential flag alone.
\<close>

definition EventTracePropertiesWithBuffers_init_part_000 ::
  "GUID \<Rightarrow> size_t \<Rightarrow> EventTracePropertiesWithBuffers" where
  "EventTracePropertiesWithBuffers_init_part_000 sessionId bufferSize =
     ZeroMemory\<lparr>Properties :=
       \<lparr>Wnode =
          \<lparr>Wnode_BufferSize = of_nat sizeof_EventTracePropertiesWithBuffers,
           Wnode_Guid = Wnode_Guid (Wnode (Properties ZeroMemory)),
           Wnode_ClientContext = 1,
           Wnode_Flags = WNODE_FLAG_TRACED_GUID\<rparr>,
        BufferSize = ucast (clamp bufferSize 0 c_maxBufferSize),
        LogFileMode = EVENT_TRACE_FILE_MODE_SEQUENTIAL,
        LogFileNameOffset = of_nat offsetof_LogFilePath,
        LoggerNameOffset = of_nat offsetof_SessionName\<rparr>\<rparr>"

text \<open>The whole constructor: the assignments, then \<^verbatim>\<open>SetLogFilePath(logFilePath)\<close>.\<close>

definition EventTracePropertiesWithBuffers_ctor ::
  "variant \<Rightarrow> GUID \<Rightarrow> size_t \<Rightarrow> string \<Rightarrow> failure + EventTracePropertiesWithBuffers" where
  "EventTracePropertiesWithBuffers_ctor v sessionId bufferSize logFilePath =
     SetLogFilePath
       (case v of
          MiniEtwLog_h \<Rightarrow> EventTracePropertiesWithBuffers_init_h sessionId bufferSize
        | part_000_first \<Rightarrow> EventTracePropertiesWithBuffers_init_part_000 sessionId bufferSize
        | part_000_second \<Rightarrow> EventTracePropertiesWithBuffers_init_part_000 sessionId bufferSize)
       logFilePath"

section \<open>The platform\<close>

text \<open>
  The event record of \<^verbatim>\<open>EventWrite\<close>: the SDK's \<^verbatim>\<open>EVENT_DESCRIPTOR\<close> (the field \<^verbatim>\<open>Id\<close>
  is written \<open>Id'\<close>) and \<^verbatim>\<open>EVENT_DATA_DESCRIPTOR\<close>. A pointer to the caller's bytes is
  modelled by the bytes it designates.
\<close>

record EVENT_DESCRIPTOR =
  Id' :: "16 word"
  Version :: "8 word"
  Channel :: "8 word"
  Level :: "8 word"
  Opcode :: "8 word"
  Task :: "16 word"
  Keyword :: "64 word"

record EVENT_DATA_DESCRIPTOR =
  Ptr :: "byte list"
  Size :: ULONG
  Reserved :: ULONG

text \<open>
  The calls the code makes into the platform, each with the arguments the code passes
  (arguments that are \<^verbatim>\<open>nullptr\<close> or \<^verbatim>\<open>NULL\<close> at every call site are left out). For
  \<^verbatim>\<open>StartTraceA\<close> the first argument is the value of \<^verbatim>\<open>Handle\<close> at the call;
  \<^verbatim>\<open>ControlTraceA\<close> takes the session name or \<^verbatim>\<open>nullptr\<close> (\<open>None\<close>).
\<close>

datatype call =
    CoCreateGuid
  | create_directories string
  | EventRegister GUID
  | EventUnregister REGHANDLE
  | StartTraceA TRACEHANDLE string EventTracePropertiesWithBuffers
  | ControlTraceA TRACEHANDLE "string option" EventTracePropertiesWithBuffers ULONG
  | EnableTraceEx2 TRACEHANDLE GUID ULONG "8 word" "64 word" "64 word" ULONG
  | EventWrite REGHANDLE EVENT_DESCRIPTOR ULONG "EVENT_DATA_DESCRIPTOR list"

text \<open>
  What a call gives back: its status code and what it wrote through its output pointer (a
  handle for \<^verbatim>\<open>StartTraceA\<close> and \<^verbatim>\<open>EventRegister\<close>, an identity for \<^verbatim>\<open>CoCreateGuid\<close>).
  What the platform writes back into a control block it was handed is not modelled.
\<close>

record response =
  status :: ULONG
  out_handle :: "64 word"
  out_guid :: GUID

text \<open>
  The platform is a parameter of the model: its answer to a call may depend on every call
  made before. The two message tables (\<^verbatim>\<open>std::system_category().message\<close> and
  \<^verbatim>\<open>FormatMessageA\<close> with \<^verbatim>\<open>FORMAT_MESSAGE_FROM_SYSTEM\<close>, which returns the number of
  characters and the text it stored) are functions of the code alone.
\<close>

record platform =
  respond :: "call list \<Rightarrow> call \<Rightarrow> response"
  system_category_message :: "ULONG \<Rightarrow> string"
  FormatMessageA :: "ULONG \<Rightarrow> ULONG \<times> string"

text \<open>One call: the platform's answer, and the call appended to the history.\<close>

definition perform :: "platform \<Rightarrow> call \<Rightarrow> call list \<Rightarrow> response \<times> call list" where
  "perform plat c tr = (respond plat tr c, tr @ [c])"

section \<open>The verifier\<close>

text \<open>
  The statements inside the \<^verbatim>\<open>if\<close> of \<^verbatim>\<open>VerifyHResult\<close>, the same in the three copies: the
  exception that is thrown. \<^verbatim>\<open>std::error_code{}\<close> is the code 0 of the system category.
\<close>

definition thrown_system_error :: "platform \<Rightarrow> ULONG \<Rightarrow> string \<Rightarrow> failure" where
  "thrown_system_error plat hresult additionalInfo =
     (if system_category_message plat hresult = system_category_message plat 0
      then (case FormatMessageA plat hresult of
              (n, errStr) \<Rightarrow>
                if n \<noteq> 0 then system_error hresult (errStr @ additionalInfo)
                else system_error hresult additionalInfo)
      else system_error hresult additionalInfo)"

text \<open>
  The message of a \<^verbatim>\<open>std::system_error\<close>, its \<^verbatim>\<open>what()\<close>. The class belongs to the C++
  standard library, not to the repository; the message is the one the standard's note on
  \<^verbatim>\<open>system_error::what\<close> gives: the text handed to the constructor, a colon and a space,
  and the category's message for the code.
\<close>

definition system_error_what :: "platform \<Rightarrow> ULONG \<Rightarrow> string \<Rightarrow> string" where
  "system_error_what plat code what_arg =
     what_arg @ '': '' @ system_category_message plat code"

text \<open>
  \<^verbatim>\<open>VerifyHResult\<close> of \<^verbatim>\<open>src/Log/MiniEtwLog.h\<close> (line 85) and of the second document of
  \<^verbatim>\<open>src/unnamed/part_000\<close> (line 231).
\<close>

definition VerifyHResult :: "platform \<Rightarrow> ULONG \<Rightarrow> string \<Rightarrow> ULONG \<Rightarrow> failure + unit" where
  "VerifyHResult plat hresult additionalInfo expectedGoodResult =
     (if hresult \<noteq> expectedGoodResult
      then Inl (thrown_system_error plat hresult additionalInfo)
      else Inr ())"

text \<open>
  \<^verbatim>\<open>VerifyHResult\<close> of the first document of \<^verbatim>\<open>src/unnamed/part_000\<close> (line 19): the
  expected value is a \<^verbatim>\<open>std::optional\<close>, and the condition is
  \<^verbatim>\<open>expectedGoodResult && hresult != *expectedGoodResult || !SUCCEEDED(hresult)\<close>, where
  \<^verbatim>\<open>&&\<close> binds tighter than \<^verbatim>\<open>||\<close>. The function is declared \<^verbatim>\<open>__declspec(noreturn)\<close>, and
  its body falls off its end when the condition is false: a return from a function that
  must not return.
\<close>

definition VerifyHResult_optional ::
  "platform \<Rightarrow> ULONG \<Rightarrow> string \<Rightarrow> ULONG option \<Rightarrow> failure + unit" where
  "VerifyHResult_optional plat hresult additionalInfo expectedGoodResult =
     (if (case expectedGoodResult of None \<Rightarrow> False | Some e \<Rightarrow> hresult \<noteq> e)
          \<or> \<not> SUCCEEDED hresult
      then Inl (thrown_system_error plat hresult additionalInfo)
      else Inl returned_from_noreturn)"

text \<open>The verifier a call site of copy \<open>v\<close> reaches, with the expected value it passes.\<close>

definition VerifyHResult_in ::
  "variant \<Rightarrow> platform \<Rightarrow> ULONG \<Rightarrow> string \<Rightarrow> ULONG \<Rightarrow> failure + unit" where
  "VerifyHResult_in v plat hresult additionalInfo expectedGoodResult =
     (case v of
        MiniEtwLog_h \<Rightarrow> VerifyHResult plat hresult additionalInfo expectedGoodResult
      | part_000_first \<Rightarrow>
          VerifyHResult_optional plat hresult additionalInfo (Some expectedGoodResult)
      | part_000_second \<Rightarrow> VerifyHResult plat hresult additionalInfo expectedGoodResult)"

section \<open>Identity, enablement, session, registration\<close>

definition MakeGuid :: "variant \<Rightarrow> platform \<Rightarrow> call list \<Rightarrow> (failure + GUID) \<times> call list" where
  "MakeGuid v plat tr =
     (case perform plat CoCreateGuid tr of
        (r, tr1) \<Rightarrow>
          (case VerifyHResult_in v plat (status r) ''CoCreateGuid failed'' S_OK of
             Inl e \<Rightarrow> (Inl e, tr1)
           | Inr u \<Rightarrow> (Inr (out_guid r), tr1)))"

record EnabledProvider =
  SessionHandle :: TRACEHANDLE
  EnabledProviderId :: GUID

definition EnabledProvider_ctor ::
  "variant \<Rightarrow> platform \<Rightarrow> TRACEHANDLE \<Rightarrow> GUID \<Rightarrow> call list
     \<Rightarrow> (failure + EnabledProvider) \<times> call list" where
  "EnabledProvider_ctor v plat sessionHandle providerIdToEnable tr =
     (case perform plat
             (EnableTraceEx2 sessionHandle providerIdToEnable
                EVENT_CONTROL_CODE_ENABLE_PROVIDER TRACE_LEVEL_INFORMATION 0 0 0) tr of
        (r, tr1) \<Rightarrow>
          (case VerifyHResult_in v plat (status r) ''EnableTraceEx2 - enabling provider''
                  ERROR_SUCCESS of
             Inl e \<Rightarrow> (Inl e, tr1)
           | Inr u \<Rightarrow>
               (Inr \<lparr>SessionHandle = sessionHandle, EnabledProviderId = providerIdToEnable\<rparr>,
                tr1)))"

text \<open>The destructors ignore what the platform answers.\<close>

definition EnabledProvider_dtor :: "platform \<Rightarrow> EnabledProvider \<Rightarrow> call list \<Rightarrow> call list" where
  "EnabledProvider_dtor plat this tr =
     snd (perform plat
            (EnableTraceEx2 (SessionHandle this) (EnabledProviderId this)
               EVENT_CONTROL_CODE_DISABLE_PROVIDER TRACE_LEVEL_INFORMATION 0 0 0) tr)"

record Session =
  Handle :: TRACEHANDLE
  m_properties :: EventTracePropertiesWithBuffers

definition DestroySession ::
  "platform \<Rightarrow> Session \<Rightarrow> string option \<Rightarrow> call list \<Rightarrow> call list" where
  "DestroySession plat this sessionName tr =
     snd (perform plat
            (ControlTraceA (Handle this) sessionName (m_properties this)
               EVENT_TRACE_CONTROL_STOP) tr)"

text \<open>
  The body of the \<^verbatim>\<open>Session\<close> constructor, entered with \<^verbatim>\<open>Handle{0}\<close> and the control
  block the member initialiser built.
\<close>

definition Session_body ::
  "variant \<Rightarrow> platform \<Rightarrow> EventTracePropertiesWithBuffers \<Rightarrow> string \<Rightarrow> call list
     \<Rightarrow> (failure + Session) \<times> call list" where
  "Session_body v plat props sessionName tr =
     (if strlen sessionName \<le> extent_SessionName
      then
        (case perform plat (StartTraceA 0 sessionName props) tr of
           (r1, tr1) \<Rightarrow>
             (case
                (if status r1 = ERROR_ALREADY_EXISTS
                 then
                   (let tr2 = DestroySession plat
                                \<lparr>Handle = out_handle r1, m_properties = props\<rparr>
                                (Some sessionName) tr1
                    in perform plat (StartTraceA (out_handle r1) sessionName props) tr2)
                 else (r1, tr1)) of
                (result, tr3) \<Rightarrow>
                  (case VerifyHResult_in v plat (status result) ''StartTrace'' ERROR_SUCCESS of
                     Inl e \<Rightarrow> (Inl e, tr3)
                   | Inr u \<Rightarrow>
                       (Inr \<lparr>Handle = out_handle result, m_properties = props\<rparr>, tr3))))
      else (Inl assertion_failed, tr))"

definition Session_ctor ::
  "variant \<Rightarrow> platform \<Rightarrow> GUID \<Rightarrow> string \<Rightarrow> string \<Rightarrow> size_t \<Rightarrow> call list
     \<Rightarrow> (failure + Session) \<times> call list" where
  "Session_ctor v plat sessionId sessionName logFileName bufferSize tr =
     (case EventTracePropertiesWithBuffers_ctor v sessionId bufferSize logFileName of
        Inl e \<Rightarrow> (Inl e, tr)
      | Inr props \<Rightarrow> Session_body v plat props sessionName tr)"

definition EnableProvider ::
  "variant \<Rightarrow> platform \<Rightarrow> Session \<Rightarrow> GUID \<Rightarrow> call list
     \<Rightarrow> (failure + EnabledProvider) \<times> call list" where
  "EnableProvider v plat this providerId tr =
     EnabledProvider_ctor v plat (Handle this) providerId tr"

definition Session_dtor :: "platform \<Rightarrow> Session \<Rightarrow> call list \<Rightarrow> call list" where
  "Session_dtor plat this tr = DestroySession plat this None tr"

record Provider =
  Provider_Handle :: REGHANDLE

definition Provider_ctor ::
  "variant \<Rightarrow> platform \<Rightarrow> GUID \<Rightarrow> call list \<Rightarrow> (failure + Provider) \<times> call list" where
  "Provider_ctor v plat providerId tr =
     (case perform plat (EventRegister providerId) tr of
        (r, tr1) \<Rightarrow>
          (case VerifyHResult_in v plat (status r) ''EventRegister'' ERROR_SUCCESS of
             Inl e \<Rightarrow> (Inl e, tr1)
           | Inr u \<Rightarrow> (Inr \<lparr>Provider_Handle = out_handle r\<rparr>, tr1)))"

definition Provider_dtor :: "platform \<Rightarrow> Provider \<Rightarrow> call list \<Rightarrow> call list" where
  "Provider_dtor plat this tr = snd (perform plat (EventUnregister (Provider_Handle this)) tr)"

text \<open>
  \<^verbatim>\<open>MakeDirectories\<close> (only in \<^verbatim>\<open>src/Log/MiniEtwLog.h\<close>):
  \<^verbatim>\<open>std::filesystem::create_directories\<close> throws when it fails.
\<close>

definition MakeDirectories ::
  "platform \<Rightarrow> string \<Rightarrow> call list \<Rightarrow> (failure + string) \<times> call list" where
  "MakeDirectories plat outputFolder tr =
     (case perform plat (create_directories outputFolder) tr of
        (r, tr1) \<Rightarrow>
          if status r = 0 then (Inr outputFolder, tr1)
          else (Inl (filesystem_error (status r)), tr1))"

section \<open>The implementation object\<close>

text \<open>
  When a constructor throws, the members already constructed are destroyed, the last one
  first. A failed assertion aborts the process instead, and a null dereference or a
  return from a \<^verbatim>\<open>noreturn\<close> function is no exception either: then the model runs no
  destructor.
\<close>

fun unwinds :: "failure \<Rightarrow> bool" where
  "unwinds (system_error c w) = True"
| "unwinds (filesystem_error c) = True"
| "unwinds assertion_failed = False"
| "unwinds null_dereference = False"
| "unwinds returned_from_noreturn = False"

definition unwind :: "failure \<Rightarrow> (call list \<Rightarrow> call list) \<Rightarrow> call list \<Rightarrow> call list" where
  "unwind e destroy tr = (if unwinds e then destroy tr else tr)"

text \<open>The file name appended to the output folder: a backslash, then \<^verbatim>\<open>log.etl\<close>.\<close>

definition log_etl :: string where
  "log_etl = CHR 0x5C # ''log.etl''"

text \<open>
  The members of \<^verbatim>\<open>MiniLog::Impl\<close>. In \<^verbatim>\<open>src/Log/MiniEtwLog.h\<close> they are declared in the
  order \<^verbatim>\<open>m_providerId\<close>, \<^verbatim>\<open>m_provider\<close>, \<^verbatim>\<open>m_session\<close>, \<^verbatim>\<open>m_enabledProvider\<close>; in both
  documents of \<^verbatim>\<open>src/unnamed/part_000\<close> in the order \<^verbatim>\<open>m_sessionId\<close>, \<^verbatim>\<open>m_providerId\<close>,
  \<^verbatim>\<open>m_session\<close>, \<^verbatim>\<open>m_enabledProvider\<close>, \<^verbatim>\<open>m_provider\<close>. C++ constructs the members in
  the order of their declaration and destroys them in the reverse order; the constructors
  and destructors below spell the two orders out.
\<close>

record Impl =
  m_providerId :: GUID
  m_provider :: Provider
  m_session :: Session
  m_enabledProvider :: EnabledProvider

record Impl_part_000 = Impl +
  m_sessionId :: GUID

text \<open>\<^verbatim>\<open>MiniLog::Impl\<close> of \<^verbatim>\<open>src/Log/MiniEtwLog.h\<close>.\<close>

definition Impl_ctor ::
  "platform \<Rightarrow> string \<Rightarrow> string \<Rightarrow> size_t \<Rightarrow> call list \<Rightarrow> (failure + Impl) \<times> call list" where
  "Impl_ctor plat sessionName outputFolder bufferSize tr =
     (case MakeGuid MiniEtwLog_h plat tr of
        (Inl e, tr1) \<Rightarrow> (Inl e, tr1)
      | (Inr providerId, tr1) \<Rightarrow>
     (case Provider_ctor MiniEtwLog_h plat providerId tr1 of
        (Inl e, tr2) \<Rightarrow> (Inl e, tr2)
      | (Inr provider, tr2) \<Rightarrow>
     (case MakeDirectories plat outputFolder tr2 of
        (Inl e, tr3) \<Rightarrow> (Inl e, unwind e (Provider_dtor plat provider) tr3)
      | (Inr folder, tr3) \<Rightarrow>
     (case Session_ctor MiniEtwLog_h plat providerId sessionName (folder @ log_etl)
             bufferSize tr3 of
        (Inl e, tr4) \<Rightarrow> (Inl e, unwind e (Provider_dtor plat provider) tr4)
      | (Inr session, tr4) \<Rightarrow>
     (case EnableProvider MiniEtwLog_h plat session providerId tr4 of
        (Inl e, tr5) \<Rightarrow>
          (Inl e,
           unwind e (\<lambda>t. Provider_dtor plat provider (Session_dtor plat session t)) tr5)
      | (Inr enabled, tr5) \<Rightarrow>
          (Inr \<lparr>m_providerId = providerId, m_provider = provider, m_session = session,
                m_enabledProvider = enabled\<rparr>,
           tr5))))))"

definition Impl_dtor :: "platform \<Rightarrow> Impl \<Rightarrow> call list \<Rightarrow> call list" where
  "Impl_dtor plat this tr =
     Provider_dtor plat (m_provider this)
       (Session_dtor plat (m_session this)
          (EnabledProvider_dtor plat (m_enabledProvider this) tr))"

text \<open>
  \<^verbatim>\<open>MiniLog::Impl\<close> of the two documents of \<^verbatim>\<open>src/unnamed/part_000\<close>; the session name
  reaches the session as \<^verbatim>\<open>std::string{sessionName}.c_str()\<close>.
\<close>

definition Impl_part_000_ctor ::
  "variant \<Rightarrow> platform \<Rightarrow> string \<Rightarrow> string \<Rightarrow> size_t \<Rightarrow> call list
     \<Rightarrow> (failure + Impl_part_000) \<times> call list" where
  "Impl_part_000_ctor v plat sessionName outputFolder bufferSize tr =
     (case MakeGuid v plat tr of
        (Inl e, tr1) \<Rightarrow> (Inl e, tr1)
      | (Inr sessionId, tr1) \<Rightarrow>
     (case MakeGuid v plat tr1 of
        (Inl e, tr2) \<Rightarrow> (Inl e, tr2)
      | (Inr providerId, tr2) \<Rightarrow>
     (case Session_ctor v plat sessionId (c_str sessionName) (outputFolder @ log_etl)
             bufferSize tr2 of
        (Inl e, tr3) \<Rightarrow> (Inl e, tr3)
      | (Inr session, tr3) \<Rightarrow>
     (case EnableProvider v plat session providerId tr3 of
        (Inl e, tr4) \<Rightarrow> (Inl e, unwind e (Session_dtor plat session) tr4)
      | (Inr enabled, tr4) \<Rightarrow>
     (case Provider_ctor v plat providerId tr4 of
        (Inl e, tr5) \<Rightarrow>
          (Inl e,
           unwind e (\<lambda>t. Session_dtor plat session (EnabledProvider_dtor plat enabled t)) tr5)
      | (Inr provider, tr5) \<Rightarrow>
          (Inr \<lparr>m_providerId = providerId, m_provider = provider, m_session = session,
                m_enabledProvider = enabled, m_sessionId = sessionId\<rparr>,
           tr5))))))"

definition Impl_part_000_dtor :: "platform \<Rightarrow> Impl_part_000 \<Rightarrow> call list \<Rightarrow> call list" where
  "Impl_part_000_dtor plat this tr =
     Session_dtor plat (m_session this)
       (EnabledProvider_dtor plat (m_enabledProvider this)
          (Provider_dtor plat (m_provider this) tr))"

text \<open>\<^verbatim>\<open>Write\<close>, the same in the three copies but for the verifier it reaches.\<close>

definition c_descriptor :: EVENT_DESCRIPTOR where
  "c_descriptor =
     \<lparr>Id' = 0x1, Version = 0x1, Channel = 0x0, Level = 0x0, Opcode = 0x0, Task = 0x0,
      Keyword = 0x0\<rparr>"

definition EventDataDescCreate :: "byte list \<Rightarrow> ULONG \<Rightarrow> EVENT_DATA_DESCRIPTOR" where
  "EventDataDescCreate DataPtr DataSize = \<lparr>Ptr = DataPtr, Size = DataSize, Reserved = 0\<rparr>"

text \<open>\<^verbatim>\<open>message.size()\<close>, a \<^verbatim>\<open>std::size_t\<close>.\<close>

definition span_size :: "byte list \<Rightarrow> size_t" where
  "span_size message = of_nat (length message)"

definition Write ::
  "variant \<Rightarrow> platform \<Rightarrow> 'a Impl_scheme \<Rightarrow> byte list \<Rightarrow> call list
     \<Rightarrow> (failure + unit) \<times> call list" where
  "Write v plat this message tr =
     (let eventDataDescriptors = [EventDataDescCreate message (ucast (span_size message))]
      in case perform plat
                (EventWrite (Provider_Handle (m_provider this)) c_descriptor 1
                   eventDataDescriptors) tr of
           (r, tr1) \<Rightarrow> (VerifyHResult_in v plat (status r) ''EventWrite'' ERROR_SUCCESS, tr1))"

section \<open>The logger\<close>

text \<open>\<^verbatim>\<open>MiniLog\<close>: a \<^verbatim>\<open>std::unique_ptr<Impl>\<close>, null (\<open>None\<close>) or owning its object.\<close>

record 'impl MiniLog =
  m_impl :: "'impl option"

definition MiniLog_ctor ::
  "platform \<Rightarrow> string \<Rightarrow> string \<Rightarrow> size_t \<Rightarrow> call list
     \<Rightarrow> (failure + Impl MiniLog) \<times> call list" where
  "MiniLog_ctor plat sessionName outputFolder bufferSize tr =
     (case Impl_ctor plat sessionName outputFolder bufferSize tr of
        (Inl e, tr1) \<Rightarrow> (Inl e, tr1)
      | (Inr impl, tr1) \<Rightarrow> (Inr \<lparr>m_impl = Some impl\<rparr>, tr1))"

definition MiniLog_part_000_ctor ::
  "variant \<Rightarrow> platform \<Rightarrow> string \<Rightarrow> string \<Rightarrow> size_t \<Rightarrow> call list
     \<Rightarrow> (failure + Impl_part_000 MiniLog) \<times> call list" where
  "MiniLog_part_000_ctor v plat sessionName outputFolder bufferSize tr =
     (case Impl_part_000_ctor v plat sessionName outputFolder bufferSize tr of
        (Inl e, tr1) \<Rightarrow> (Inl e, tr1)
      | (Inr impl, tr1) \<Rightarrow> (Inr \<lparr>m_impl = Some impl\<rparr>, tr1))"

text \<open>
  The defaulted destructor destroys the \<^verbatim>\<open>unique_ptr\<close>, which destroys the object it owns,
  if any. What it returns is written as an outcome, to be compared with the outcomes of
  the other operations.
\<close>

definition MiniLog_dtor ::
  "platform \<Rightarrow> Impl MiniLog \<Rightarrow> call list \<Rightarrow> (failure + unit) \<times> call list" where
  "MiniLog_dtor plat this tr =
     (case m_impl this of
        None \<Rightarrow> (Inr (), tr)
      | Some impl \<Rightarrow> (Inr (), Impl_dtor plat impl tr))"

definition MiniLog_part_000_dtor ::
  "platform \<Rightarrow> Impl_part_000 MiniLog \<Rightarrow> call list \<Rightarrow> (failure + unit) \<times> call list" where
  "MiniLog_part_000_dtor plat this tr =
     (case m_impl this of
        None \<Rightarrow> (Inr (), tr)
      | Some impl \<Rightarrow> (Inr (), Impl_part_000_dtor plat impl tr))"

text \<open>
  \<^verbatim>\<open>operator()\<close>: \<^verbatim>\<open>m_impl->Write(message)\<close>. Through a null \<^verbatim>\<open>m_impl\<close> this reads the
  members of an object that is not there.
\<close>

definition MiniLog_call ::
  "variant \<Rightarrow> platform \<Rightarrow> ('a Impl_scheme) MiniLog \<Rightarrow> byte list \<Rightarrow> call list
     \<Rightarrow> (failure + unit) \<times> call list" where
  "MiniLog_call v plat this message tr =
     (case m_impl this of
        None \<Rightarrow> (Inl null_dereference, tr)
      | Some impl \<Rightarrow> Write v plat impl message tr)"

text \<open>
  The defaulted move operations of \<^verbatim>\<open>src/Log/MiniEtwLog.h\<close> (lines 297 and 298) move the
  \<^verbatim>\<open>unique_ptr\<close>. The move constructor gives the new object and what is left of the
  source; the move assignment gives the assigned object, what is left of the source, and
  the history after the object that the target owned before was destroyed. (The target
  and the source are two objects.)
\<close>

definition MiniLog_move :: "Impl MiniLog \<Rightarrow> Impl MiniLog \<times> Impl MiniLog" where
  "MiniLog_move other = (\<lparr>m_impl = m_impl other\<rparr>, \<lparr>m_impl = None\<rparr>)"

definition MiniLog_move_assign ::
  "platform \<Rightarrow> Impl MiniLog \<Rightarrow> Impl MiniLog \<Rightarrow> call list
     \<Rightarrow> (Impl MiniLog \<times> Impl MiniLog) \<times> call list" where
  "MiniLog_move_assign plat this other tr =
     ((\<lparr>m_impl = m_impl other\<rparr>, \<lparr>m_impl = None\<rparr>),
      (case m_impl this of None \<Rightarrow> tr | Some old \<Rightarrow> Impl_dtor plat old tr))"

section \<open>Reading a history\<close>

text \<open>The calls that start, stop or configure a session.\<close>

fun is_session_call :: "call \<Rightarrow> bool" where
  "is_session_call (StartTraceA h n b) = True"
| "is_session_call (ControlTraceA h n b c) = True"
| "is_session_call (EnableTraceEx2 h g c l a b t) = True"
| "is_session_call other = False"

fun is_stop :: "call \<Rightarrow> bool" where
  "is_stop (ControlTraceA h n b c) = (c = EVENT_TRACE_CONTROL_STOP)"
| "is_stop other = False"

section \<open>Concrete platforms and inputs\<close>

text \<open>
  A platform on which every call succeeds. It hands out the handle 9 for a registration
  and 7 for a session, and a new identity at each call.
\<close>

definition succeeding_platform :: platform where
  "succeeding_platform =
     \<lparr>respond =
        (\<lambda>tr c. \<lparr>status = 0,
                  out_handle = (case c of EventRegister g \<Rightarrow> 9 | _ \<Rightarrow> 7),
                  out_guid = 0x1234 + of_nat (length tr)\<rparr>),
      system_category_message = (\<lambda>c. if c = 0 then ''success'' else ''unknown error''),
      FormatMessageA = (\<lambda>c. (0, []))\<rparr>"

text \<open>
  A platform on which every call fails with the code 5; its category has one message for
  every code, and its system-message table has a text.
\<close>

definition unformatted_platform :: platform where
  "unformatted_platform =
     \<lparr>respond = (\<lambda>tr c. \<lparr>status = 5, out_handle = 0, out_guid = 0\<rparr>),
      system_category_message = (\<lambda>c. ''unknown error''),
      FormatMessageA = (\<lambda>c. (18, ''Access is denied. ''))\<rparr>"

text \<open>
  A platform on which every call fails with the code 5; its category has no message of
  its own for that code (it answers \<^verbatim>\<open>unknown error\<close>), and its system-message table has a
  text.
\<close>

definition unregistered_platform :: platform where
  "unregistered_platform =
     \<lparr>respond = (\<lambda>tr c. \<lparr>status = 5, out_handle = 0, out_guid = 0\<rparr>),
      system_category_message = (\<lambda>c. if c = 0 then ''success'' else ''unknown error''),
      FormatMessageA = (\<lambda>c. (18, ''Access is denied. ''))\<rparr>"

text \<open>A platform on which every start of a session collides with an existing name.\<close>

definition colliding_platform :: platform where
  "colliding_platform =
     \<lparr>respond =
        (\<lambda>tr c. case c of
                  StartTraceA h n b \<Rightarrow> \<lparr>status = 183, out_handle = h, out_guid = 0\<rparr>
                | _ \<Rightarrow> \<lparr>status = 0, out_handle = 7, out_guid = 0x1234\<rparr>),
      system_category_message = (\<lambda>c. if c = 0 then ''success'' else ''unknown error''),
      FormatMessageA = (\<lambda>c. (0, []))\<rparr>"

text \<open>
  A platform that holds a stale session: a start collides until a stop has been issued.
\<close>

definition stale_session_platform :: platform where
  "stale_session_platform =
     \<lparr>respond =
        (\<lambda>tr c. case c of
                  StartTraceA h n b \<Rightarrow>
                    if list_ex is_stop tr then \<lparr>status = 0, out_handle = 7, out_guid = 0\<rparr>
                    else \<lparr>status = 183, out_handle = h, out_guid = 0\<rparr>
                | _ \<Rightarrow> \<lparr>status = 0, out_handle = 9, out_guid = 0x1234\<rparr>),
      system_category_message = (\<lambda>c. if c = 0 then ''success'' else ''unknown error''),
      FormatMessageA = (\<lambda>c. (0, []))\<rparr>"

text \<open>
  The control blocks the constructors build for the identity \<open>0x1234\<close>, a request of 20000
  kilobytes and the path \<^verbatim>\<open>out\log.etl\<close>.
\<close>

definition example_block :: EventTracePropertiesWithBuffers where
  "example_block =
     (EventTracePropertiesWithBuffers_init_h 0x1234 20000)
       \<lparr>LogFilePath := ''out'' @ log_etl @ replicate 1013 NUL\<rparr>"

definition example_block_part_000 :: EventTracePropertiesWithBuffers where
  "example_block_part_000 =
     (EventTracePropertiesWithBuffers_init_part_000 0x1234 20000)
       \<lparr>LogFilePath := ''out'' @ log_etl @ replicate 1013 NUL\<rparr>"

text \<open>
  The implementation objects that a construction on \<open>succeeding_platform\<close> leaves, for the
  session name \<^verbatim>\<open>Mini logger\<close>, the folder \<^verbatim>\<open>out\<close> and a request of 20000 kilobytes: the
  one of \<^verbatim>\<open>src/Log/MiniEtwLog.h\<close> and the one of the second document of
  \<^verbatim>\<open>src/unnamed/part_000\<close>.
\<close>

definition example_impl :: Impl where
  "example_impl =
     \<lparr>m_providerId = 0x1234, m_provider = \<lparr>Provider_Handle = 9\<rparr>,
      m_session = \<lparr>Handle = 7, m_properties = example_block\<rparr>,
      m_enabledProvider = \<lparr>SessionHandle = 7, EnabledProviderId = 0x1234\<rparr>\<rparr>"

definition example_impl_part_000 :: Impl_part_000 where
  "example_impl_part_000 =
     \<lparr>m_providerId = 0x1235, m_provider = \<lparr>Provider_Handle = 9\<rparr>,
      m_session = \<lparr>Handle = 7, m_properties = example_block_part_000\<rparr>,
      m_enabledProvider = \<lparr>SessionHandle = 7, EnabledProviderId = 0x1235\<rparr>,
      m_sessionId = 0x1234\<rparr>"

section \<open>The control block: what the constructor returns\<close>

lemma ctor_Inr:
  "EventTracePropertiesWithBuffers_ctor v sessionId bufferSize logFilePath = Inr block \<Longrightarrow>
     length logFilePath \<le> extent_LogFilePath \<and>
     Properties block =
       Properties (case v of
          MiniEtwLog_h \<Rightarrow> EventTracePropertiesWithBuffers_init_h sessionId bufferSize
        | part_000_first \<Rightarrow> EventTracePropertiesWithBuffers_init_part_000 sessionId bufferSize
        | part_000_second \<Rightarrow> EventTracePropertiesWithBuffers_init_part_000 sessionId bufferSize)"
  by (auto simp: EventTracePropertiesWithBuffers_ctor_def SetLogFilePath_def split: if_splits)

lemma unat_clamp: "unat (clamp bufferSize 0 c_maxBufferSize) = min (unat bufferSize) 16384"
  by (simp add: clamp_def c_maxBufferSize_def word_less_nat_alt min_def)

lemma unat_ucast_clamp:
  "unat (ucast (clamp bufferSize 0 c_maxBufferSize) :: ULONG) = min (unat bufferSize) 16384"
proof -
  have "unat (clamp bufferSize 0 c_maxBufferSize) < 2 ^ 32"
    by (simp add: unat_clamp)
  then show ?thesis
    by (simp add: unat_clamp unsigned_ucast_eq take_bit_nat_eq_self)
qed

lemma example_block_built:
  "EventTracePropertiesWithBuffers_ctor MiniEtwLog_h 0x1234 20000 (''out'' @ log_etl) =
     Inr example_block"
  by (simp add: EventTracePropertiesWithBuffers_ctor_def SetLogFilePath_def example_block_def
      EventTracePropertiesWithBuffers_init_h_def ZeroMemory_def extent_LogFilePath_def
      log_etl_def)

lemma example_block_part_000_built:
  "EventTracePropertiesWithBuffers_ctor part_000_first sessionId 20000 (''out'' @ log_etl) =
     Inr example_block_part_000"
  "EventTracePropertiesWithBuffers_ctor part_000_second sessionId 20000 (''out'' @ log_etl) =
     Inr example_block_part_000"
  by (simp_all add: EventTracePropertiesWithBuffers_ctor_def SetLogFilePath_def
      example_block_part_000_def
      EventTracePropertiesWithBuffers_init_part_000_def ZeroMemory_def extent_LogFilePath_def
      log_etl_def)

text \<open>
  C8. For every requested buffer size, the buffer size recorded in a control block the
  constructor returns is the request clamped into the range from 0 to 16384 (kilobytes),
  in each of the three copies.
\<close>

theorem C8_buffer_size_clamped:
  assumes "EventTracePropertiesWithBuffers_ctor v sessionId bufferSize logFilePath = Inr block"
  shows "BufferSize (Properties block) = ucast (clamp bufferSize 0 c_maxBufferSize) \<and>
         unat (BufferSize (Properties block)) = max 0 (min 16384 (unat bufferSize))"
proof -
  have "BufferSize (Properties block) = ucast (clamp bufferSize 0 c_maxBufferSize)"
    using ctor_Inr [OF assms]
    by (cases v)
      (simp_all add: EventTracePropertiesWithBuffers_init_h_def
        EventTracePropertiesWithBuffers_init_part_000_def)
  then show ?thesis
    by (simp add: unat_ucast_clamp min.commute)
qed

theorem C8_buffer_size_clamped_witness:
  "EventTracePropertiesWithBuffers_ctor MiniEtwLog_h 0x1234 20000 (''out'' @ log_etl) =
     Inr example_block \<and>
   unat (BufferSize (Properties example_block)) = 16384"
  using C8_buffer_size_clamped [OF example_block_built, THEN conjunct2] example_block_built
  by simp

text \<open>
  C5 (as the code has it). A control block built by the constructor of
  \<^verbatim>\<open>src/Log/MiniEtwLog.h\<close> has the logging mode sequential file, private logger and
  private in-process, and no other flag. A control block built by the constructor of either
  document of \<^verbatim>\<open>src/unnamed/part_000\<close> has the sequential-file flag alone.
\<close>

theorem C5_logging_mode:
  assumes "EventTracePropertiesWithBuffers_ctor v sessionId bufferSize logFilePath = Inr block"
  shows "LogFileMode (Properties block) =
           (case v of
              MiniEtwLog_h \<Rightarrow>
                EVENT_TRACE_FILE_MODE_SEQUENTIAL OR EVENT_TRACE_PRIVATE_LOGGER_MODE
                  OR EVENT_TRACE_PRIVATE_IN_PROC
            | part_000_first \<Rightarrow> EVENT_TRACE_FILE_MODE_SEQUENTIAL
            | part_000_second \<Rightarrow> EVENT_TRACE_FILE_MODE_SEQUENTIAL)"
  using ctor_Inr [OF assms]
  by (cases v)
    (simp_all add: EventTracePropertiesWithBuffers_init_h_def
      EventTracePropertiesWithBuffers_init_part_000_def)

theorem C5_logging_mode_witness:
  "EventTracePropertiesWithBuffers_ctor MiniEtwLog_h 0x1234 20000 (''out'' @ log_etl) =
     Inr example_block \<and>
   LogFileMode (Properties example_block) = 0x20801 \<and>
   EventTracePropertiesWithBuffers_ctor part_000_second 0x1234 20000 (''out'' @ log_etl) =
     Inr example_block_part_000 \<and>
   LogFileMode (Properties example_block_part_000) = 0x1"
  using C5_logging_mode [OF example_block_built]
    C5_logging_mode [OF example_block_part_000_built(2)]
    example_block_built example_block_part_000_built(2)
  by (simp add: EVENT_TRACE_FILE_MODE_SEQUENTIAL_def EVENT_TRACE_PRIVATE_LOGGER_MODE_def
      EVENT_TRACE_PRIVATE_IN_PROC_def)

text \<open>
  The block the first document of \<^verbatim>\<open>src/unnamed/part_000\<close> builds has the mode 1, which is
  not the combination of the three flags.
\<close>

theorem C5_logging_mode_counterexample:
  "EventTracePropertiesWithBuffers_ctor part_000_first 0x1234 20000 (''out'' @ log_etl) =
     Inr example_block_part_000 \<and>
   LogFileMode (Properties example_block_part_000) \<noteq>
     EVENT_TRACE_FILE_MODE_SEQUENTIAL OR EVENT_TRACE_PRIVATE_LOGGER_MODE
       OR EVENT_TRACE_PRIVATE_IN_PROC"
proof -
  have "LogFileMode (Properties example_block_part_000) = 1"
    by (simp add: example_block_part_000_def EventTracePropertiesWithBuffers_init_part_000_def
        ZeroMemory_def EVENT_TRACE_FILE_MODE_SEQUENTIAL_def)
  then show ?thesis
    using example_block_part_000_built(1)
    by (simp add: EVENT_TRACE_FILE_MODE_SEQUENTIAL_def EVENT_TRACE_PRIVATE_LOGGER_MODE_def
        EVENT_TRACE_PRIVATE_IN_PROC_def)
qed

section \<open>The verifier: when it returns and what it throws\<close>

lemma VerifyHResult_in_success:
  "VerifyHResult_in v plat hresult additionalInfo ERROR_SUCCESS =
     (if hresult = ERROR_SUCCESS
      then (if v = part_000_first then Inl returned_from_noreturn else Inr ())
      else Inl (thrown_system_error plat hresult additionalInfo))"
proof (cases "hresult = 0")
  case True
  then show ?thesis
    by (cases v)
      (simp_all add: VerifyHResult_in_def VerifyHResult_def VerifyHResult_optional_def
        ERROR_SUCCESS_def SUCCEEDED_def)
next
  case False
  then show ?thesis
    by (cases v)
      (simp_all add: VerifyHResult_in_def VerifyHResult_def VerifyHResult_optional_def
        ERROR_SUCCESS_def)
qed

text \<open>
  C6 (as the code has it). The verifier of \<^verbatim>\<open>src/Log/MiniEtwLog.h\<close> and of the second
  document of \<^verbatim>\<open>src/unnamed/part_000\<close> returns if and only if the code equals the expected
  value, and otherwise throws. The verifier of the first document of
  \<^verbatim>\<open>src/unnamed/part_000\<close> throws whenever the code is not a success code, and whenever an
  expected value is given and the code differs from it. What each throws is a system
  error for the code, whose message holds the caller's diagnostic string, a colon and the
  category's message for that code. Nothing is stated about what the verifier of the
  first document does when it does not throw, nor about when a text of the system-message
  table stands in front of the diagnostic string.
\<close>

theorem C6_verifier:
  "((VerifyHResult plat hresult additionalInfo expected = Inr ()) = (hresult = expected)) \<and>
   (hresult \<noteq> expected \<longrightarrow>
      VerifyHResult plat hresult additionalInfo expected =
        Inl (thrown_system_error plat hresult additionalInfo)) \<and>
   (\<not> SUCCEEDED hresult \<longrightarrow>
      VerifyHResult_optional plat hresult additionalInfo optional =
        Inl (thrown_system_error plat hresult additionalInfo)) \<and>
   (hresult \<noteq> expected \<longrightarrow>
      VerifyHResult_optional plat hresult additionalInfo (Some expected) =
        Inl (thrown_system_error plat hresult additionalInfo)) \<and>
   (\<exists>what_arg pre.
      thrown_system_error plat hresult additionalInfo = system_error hresult what_arg \<and>
      system_error_what plat hresult what_arg =
        pre @ additionalInfo @ '': '' @ system_category_message plat hresult)"
proof -
  have "\<exists>what_arg pre.
      thrown_system_error plat hresult additionalInfo = system_error hresult what_arg \<and>
      system_error_what plat hresult what_arg =
        pre @ additionalInfo @ '': '' @ system_category_message plat hresult"
  proof (cases "system_category_message plat hresult = system_category_message plat 0
      \<and> fst (FormatMessageA plat hresult) \<noteq> 0")
    case True
    then have "thrown_system_error plat hresult additionalInfo =
        system_error hresult (snd (FormatMessageA plat hresult) @ additionalInfo)"
      by (cases "FormatMessageA plat hresult") (simp add: thrown_system_error_def)
    moreover have "system_error_what plat hresult
        (snd (FormatMessageA plat hresult) @ additionalInfo) =
        snd (FormatMessageA plat hresult) @ additionalInfo @ '': '' @
          system_category_message plat hresult"
      by (simp add: system_error_what_def)
    ultimately show ?thesis
      by blast
  next
    case False
    then have "thrown_system_error plat hresult additionalInfo =
        system_error hresult additionalInfo"
      by (cases "FormatMessageA plat hresult") (auto simp: thrown_system_error_def)
    moreover have "system_error_what plat hresult additionalInfo =
        [] @ additionalInfo @ '': '' @ system_category_message plat hresult"
      by (simp add: system_error_what_def)
    ultimately show ?thesis
      by blast
  qed
  then show ?thesis
    by (simp add: VerifyHResult_def VerifyHResult_optional_def)
qed

theorem C6_verifier_witness:
  "(5 :: ULONG) \<noteq> 0 \<and>
   VerifyHResult succeeding_platform 5 ''EventWrite'' 0 =
     Inl (system_error 5 ''EventWrite'') \<and>
   VerifyHResult_optional succeeding_platform 5 ''EventWrite'' (Some 0) =
     Inl (system_error 5 ''EventWrite'') \<and>
   \<not> SUCCEEDED 0x80004005 \<and>
   VerifyHResult_optional succeeding_platform 0x80004005 ''EventWrite'' None =
     Inl (system_error 0x80004005 ''EventWrite'') \<and>
   VerifyHResult unformatted_platform 5 ''EventWrite'' 0 =
     Inl (system_error 5 ''Access is denied. EventWrite'') \<and>
   system_error_what unformatted_platform 5 ''Access is denied. EventWrite'' =
     ''Access is denied. EventWrite: unknown error''"
proof -
  note a = C6_verifier [of succeeding_platform 5 "''EventWrite''" 0 "Some 0"]
  note b = C6_verifier [of succeeding_platform "0x80004005" "''EventWrite''" 0 None]
  note c = C6_verifier [of unformatted_platform 5 "''EventWrite''" 0 None]
  have n: "(5 :: ULONG) \<noteq> 0"
    by simp
  have f: "\<not> SUCCEEDED 0x80004005"
    by (simp add: SUCCEEDED_def)
  have t: "thrown_system_error succeeding_platform 5 ''EventWrite'' =
      system_error 5 ''EventWrite''"
    by (simp add: thrown_system_error_def succeeding_platform_def)
  have t': "thrown_system_error succeeding_platform 0x80004005 ''EventWrite'' =
      system_error 0x80004005 ''EventWrite''"
    by (simp add: thrown_system_error_def succeeding_platform_def)
  have u: "thrown_system_error unformatted_platform 5 ''EventWrite'' =
      system_error 5 ''Access is denied. EventWrite''"
    by (simp add: thrown_system_error_def unformatted_platform_def)
  have w: "system_error_what unformatted_platform 5 ''Access is denied. EventWrite'' =
      ''Access is denied. EventWrite: unknown error''"
    by (simp add: system_error_what_def unformatted_platform_def)
  from a n have 1: "VerifyHResult succeeding_platform 5 ''EventWrite'' 0 =
      Inl (thrown_system_error succeeding_platform 5 ''EventWrite'')"
    by blast
  from a n have 2: "VerifyHResult_optional succeeding_platform 5 ''EventWrite'' (Some 0) =
      Inl (thrown_system_error succeeding_platform 5 ''EventWrite'')"
    by blast
  from b f have 3: "VerifyHResult_optional succeeding_platform 0x80004005 ''EventWrite'' None =
      Inl (thrown_system_error succeeding_platform 0x80004005 ''EventWrite'')"
    by blast
  from c n have 4: "VerifyHResult unformatted_platform 5 ''EventWrite'' 0 =
      Inl (thrown_system_error unformatted_platform 5 ''EventWrite'')"
    by blast
  show ?thesis
    using n f 1 2 3 4 w by (simp add: t t' u)
qed

text \<open>
  The verifier of the first document of \<^verbatim>\<open>src/unnamed/part_000\<close> throws although the code
  equals the expected value, when that value is a failure code. And for a code for which
  the category has no message of its own, while the system-message table has a text, the
  verifier of \<^verbatim>\<open>src/Log/MiniEtwLog.h\<close> throws a system error without the table's text, whose
  message does not end with the diagnostic string.
\<close>

theorem C6_verifier_counterexample:
  "VerifyHResult_optional succeeding_platform 0x80004005 ''StartTrace'' (Some 0x80004005) =
     Inl (system_error 0x80004005 ''StartTrace'') \<and>
   system_category_message unregistered_platform 5 = ''unknown error'' \<and>
   FormatMessageA unregistered_platform 5 = (18, ''Access is denied. '') \<and>
   VerifyHResult unregistered_platform 5 ''EventWrite'' 0 =
     Inl (system_error 5 ''EventWrite'') \<and>
   system_error_what unregistered_platform 5 ''EventWrite'' = ''EventWrite: unknown error''"
  by (simp add: VerifyHResult_optional_def VerifyHResult_def thrown_system_error_def
      succeeding_platform_def unregistered_platform_def SUCCEEDED_def system_error_what_def)

section \<open>Emitting a record\<close>

lemma unat_span_size:
  "unat (ucast (span_size message) :: ULONG) = length message mod 2 ^ 32"
proof -
  have "(2::nat) ^ 32 dvd 2 ^ 64"
    by (rule le_imp_power_dvd) simp
  then have "length message mod 2 ^ 64 mod 2 ^ 32 = length message mod 2 ^ 32"
    by (rule mod_mod_cancel)
  then show ?thesis
    by (simp add: span_size_def unsigned_ucast_eq unat_of_nat take_bit_eq_mod)
qed

text \<open>
  C3 (as the code has it). One emit call makes exactly one write call, through the
  registration's handle, with one record envelope holding exactly one data block. The
  block points at the caller's bytes, unchanged; its length field is the payload's length
  modulo \<open>2 ^ 32\<close>, which is the payload's length for every payload shorter than \<open>2 ^ 32\<close>
  bytes. When the write reports a code other than success, the call throws the verifier's
  system error for that code. When it reports success, the call returns in
  \<^verbatim>\<open>src/Log/MiniEtwLog.h\<close> and in the second document of \<^verbatim>\<open>src/unnamed/part_000\<close>; in the
  first document the verifier, declared \<^verbatim>\<open>noreturn\<close>, returns.
\<close>

theorem C3_emit:
  "snd (Write v plat this message tr) =
     tr @ [EventWrite (Provider_Handle (m_provider this)) c_descriptor 1
             [\<lparr>Ptr = message, Size = ucast (span_size message), Reserved = 0\<rparr>]] \<and>
   unat (ucast (span_size message) :: ULONG) = length message mod 2 ^ 32 \<and>
   (length message < 2 ^ 32 \<longrightarrow> unat (ucast (span_size message) :: ULONG) = length message) \<and>
   fst (Write v plat this message tr) =
     (if status (respond plat tr
                  (EventWrite (Provider_Handle (m_provider this)) c_descriptor 1
                     [\<lparr>Ptr = message, Size = ucast (span_size message), Reserved = 0\<rparr>]))
         = ERROR_SUCCESS
      then (if v = part_000_first then Inl returned_from_noreturn else Inr ())
      else Inl (thrown_system_error plat
                  (status (respond plat tr
                     (EventWrite (Provider_Handle (m_provider this)) c_descriptor 1
                        [\<lparr>Ptr = message, Size = ucast (span_size message), Reserved = 0\<rparr>])))
                  ''EventWrite''))"
  by (simp add: Write_def perform_def Let_def EventDataDescCreate_def VerifyHResult_in_success
      unat_span_size)

theorem C3_emit_witness:
  "length [0x48, 0x69 :: byte] < 2 ^ 32 \<and>
   unat (ucast (span_size [0x48, 0x69]) :: ULONG) = length [0x48, 0x69 :: byte] \<and>
   Write MiniEtwLog_h succeeding_platform example_impl [0x48, 0x69] [] =
     (Inr (), [EventWrite 9 c_descriptor 1 [\<lparr>Ptr = [0x48, 0x69], Size = 2, Reserved = 0\<rparr>]]) \<and>
   Write part_000_first unformatted_platform example_impl_part_000 [0x48, 0x69] [] =
     (Inl (system_error 5 ''Access is denied. EventWrite''),
      [EventWrite 9 c_descriptor 1 [\<lparr>Ptr = [0x48, 0x69], Size = 2, Reserved = 0\<rparr>]])"
  using C3_emit [of MiniEtwLog_h succeeding_platform example_impl "[0x48, 0x69]" "[]"]
    C3_emit [of part_000_first unformatted_platform example_impl_part_000 "[0x48, 0x69]" "[]"]
  by (simp add: prod_eq_iff succeeding_platform_def unformatted_platform_def example_impl_def
      example_impl_part_000_def span_size_def ERROR_SUCCESS_def thrown_system_error_def)

text \<open>
  For a payload of \<open>2 ^ 32\<close> bytes the data block carries the length 0, not the payload's.
\<close>

theorem C3_emit_counterexample:
  "snd (Write MiniEtwLog_h succeeding_platform example_impl (replicate 4294967296 0) []) =
     [EventWrite 9 c_descriptor 1
        [\<lparr>Ptr = replicate 4294967296 0, Size = 0, Reserved = 0\<rparr>]] \<and>
   length (replicate 4294967296 (0 :: byte)) \<noteq> unat (0 :: ULONG)"
  by (simp add: Write_def perform_def Let_def example_impl_def EventDataDescCreate_def
      span_size_def)

text \<open>
  C4 (as the code has it). Every record envelope built by an emit call carries the same
  event descriptor, whatever the payload: its id is 1 and its version is 1; its channel,
  severity level, opcode, task and keyword are 0.
\<close>

theorem C4_event_descriptor:
  "snd (Write v plat this message tr) =
     tr @ [EventWrite (Provider_Handle (m_provider this)) c_descriptor 1
             [EventDataDescCreate message (ucast (span_size message))]] \<and>
   c_descriptor =
     \<lparr>Id' = 1, Version = 1, Channel = 0, Level = 0, Opcode = 0, Task = 0, Keyword = 0\<rparr>"
  by (simp add: Write_def perform_def c_descriptor_def Let_def)

text \<open>The descriptor of an emitted record has an id and a version that are not zero.\<close>

theorem C4_event_descriptor_counterexample:
  "snd (Write MiniEtwLog_h succeeding_platform example_impl [0x48, 0x69] []) =
     [EventWrite 9 c_descriptor 1 [\<lparr>Ptr = [0x48, 0x69], Size = 2, Reserved = 0\<rparr>]] \<and>
   Id' c_descriptor \<noteq> 0 \<and> Version c_descriptor \<noteq> 0"
  by (simp add: Write_def perform_def Let_def example_impl_def EventDataDescCreate_def
      span_size_def c_descriptor_def)

section \<open>Starting a session\<close>

lemma Session_body_collision:
  assumes "strlen sessionName \<le> extent_SessionName"
    and "status (respond plat tr (StartTraceA 0 sessionName props)) = ERROR_ALREADY_EXISTS"
  shows "Session_body v plat props sessionName tr =
     (let start = StartTraceA 0 sessionName props;
          h = out_handle (respond plat tr start);
          stop = ControlTraceA h (Some sessionName) props EVENT_TRACE_CONTROL_STOP;
          retry = StartTraceA h sessionName props;
          r = respond plat (tr @ [start, stop]) retry
      in (if status r = ERROR_SUCCESS
          then (if v = part_000_first then Inl returned_from_noreturn
                else Inr \<lparr>Handle = out_handle r, m_properties = props\<rparr>)
          else Inl (thrown_system_error plat (status r) ''StartTrace''),
          tr @ [start, stop, retry]))"
  using assms
  by (simp add: Session_body_def perform_def DestroySession_def Let_def
      VerifyHResult_in_success)

lemma Session_body_no_collision:
  assumes "strlen sessionName \<le> extent_SessionName"
    and "status (respond plat tr (StartTraceA 0 sessionName props)) \<noteq> ERROR_ALREADY_EXISTS"
  shows "Session_body v plat props sessionName tr =
     (let start = StartTraceA 0 sessionName props;
          r = respond plat tr start
      in (if status r = ERROR_SUCCESS
          then (if v = part_000_first then Inl returned_from_noreturn
                else Inr \<lparr>Handle = out_handle r, m_properties = props\<rparr>)
          else Inl (thrown_system_error plat (status r) ''StartTrace''),
          tr @ [start]))"
  using assms
  by (simp add: Session_body_def perform_def Let_def VerifyHResult_in_success)

text \<open>
  C2. When the constructor of a session reaches the start call (the control block was
  built and the name passed its assertion) and the platform answers that a session of
  that name already exists, the constructor makes exactly two more calls: one stop with
  the same name, whose answer is ignored, and one more start. Any answer to that second
  start other than success, a second collision included, raises the verifier's system
  error for that code, and no further start is made. This holds in each of the three
  copies. A success of the second start gives the session in \<^verbatim>\<open>src/Log/MiniEtwLog.h\<close> and
  in the second document of \<^verbatim>\<open>src/unnamed/part_000\<close>; in the first document the verifier,
  declared \<^verbatim>\<open>noreturn\<close>, returns.
\<close>

theorem C2_collision_retry_once:
  assumes "EventTracePropertiesWithBuffers_ctor v sessionId bufferSize logFileName = Inr props"
    and "strlen sessionName \<le> extent_SessionName"
    and "status (respond plat tr (StartTraceA 0 sessionName props)) = ERROR_ALREADY_EXISTS"
  shows "Session_ctor v plat sessionId sessionName logFileName bufferSize tr =
     (let start = StartTraceA 0 sessionName props;
          h = out_handle (respond plat tr start);
          stop = ControlTraceA h (Some sessionName) props EVENT_TRACE_CONTROL_STOP;
          retry = StartTraceA h sessionName props;
          r = respond plat (tr @ [start, stop]) retry
      in (if status r = ERROR_SUCCESS
          then (if v = part_000_first then Inl returned_from_noreturn
                else Inr \<lparr>Handle = out_handle r, m_properties = props\<rparr>)
          else Inl (thrown_system_error plat (status r) ''StartTrace''),
          tr @ [start, stop, retry]))"
  using assms(1) Session_body_collision [OF assms(2,3)]
  by (simp add: Session_ctor_def)

lemma strlen_Mini_logger: "strlen ''Mini logger'' = 11"
  by (simp add: strlen_def NUL_def)

theorem C2_collision_retry_once_witness:
  "EventTracePropertiesWithBuffers_ctor part_000_first 0x1234 20000 (''out'' @ log_etl) =
     Inr example_block_part_000 \<and>
   strlen ''Mini logger'' \<le> extent_SessionName \<and>
   status (respond colliding_platform []
             (StartTraceA 0 ''Mini logger'' example_block_part_000)) = ERROR_ALREADY_EXISTS \<and>
   Session_ctor part_000_first colliding_platform 0x1234 ''Mini logger'' (''out'' @ log_etl)
       20000 [] =
     (Inl (system_error 183 ''StartTrace''),
      [StartTraceA 0 ''Mini logger'' example_block_part_000,
       ControlTraceA 0 (Some ''Mini logger'') example_block_part_000 EVENT_TRACE_CONTROL_STOP,
       StartTraceA 0 ''Mini logger'' example_block_part_000]) \<and>
   EventTracePropertiesWithBuffers_ctor MiniEtwLog_h 0x1234 20000 (''out'' @ log_etl) =
     Inr example_block \<and>
   status (respond stale_session_platform []
             (StartTraceA 0 ''Mini logger'' example_block)) = ERROR_ALREADY_EXISTS \<and>
   Session_ctor MiniEtwLog_h stale_session_platform 0x1234 ''Mini logger'' (''out'' @ log_etl)
       20000 [] =
     (Inr \<lparr>Handle = 7, m_properties = example_block\<rparr>,
      [StartTraceA 0 ''Mini logger'' example_block,
       ControlTraceA 0 (Some ''Mini logger'') example_block EVENT_TRACE_CONTROL_STOP,
       StartTraceA 0 ''Mini logger'' example_block])"
proof -
  have a: "EventTracePropertiesWithBuffers_ctor part_000_first 0x1234 20000 (''out'' @ log_etl) =
      Inr example_block_part_000"
    by (rule example_block_part_000_built)
  have b: "strlen ''Mini logger'' \<le> extent_SessionName"
    by (simp add: strlen_Mini_logger extent_SessionName_def)
  have c: "status (respond colliding_platform []
             (StartTraceA 0 ''Mini logger'' example_block_part_000)) = ERROR_ALREADY_EXISTS"
    by (simp add: colliding_platform_def ERROR_ALREADY_EXISTS_def)
  have d: "status (respond stale_session_platform []
             (StartTraceA 0 ''Mini logger'' example_block)) = ERROR_ALREADY_EXISTS"
    by (simp add: stale_session_platform_def ERROR_ALREADY_EXISTS_def)
  have 1: "Session_ctor part_000_first colliding_platform 0x1234 ''Mini logger''
       (''out'' @ log_etl) 20000 [] =
     (Inl (system_error 183 ''StartTrace''),
      [StartTraceA 0 ''Mini logger'' example_block_part_000,
       ControlTraceA 0 (Some ''Mini logger'') example_block_part_000 EVENT_TRACE_CONTROL_STOP,
       StartTraceA 0 ''Mini logger'' example_block_part_000])"
    using C2_collision_retry_once [OF a b c]
    by (simp add: Let_def colliding_platform_def ERROR_SUCCESS_def thrown_system_error_def)
  have 2: "Session_ctor MiniEtwLog_h stale_session_platform 0x1234 ''Mini logger''
       (''out'' @ log_etl) 20000 [] =
     (Inr \<lparr>Handle = 7, m_properties = example_block\<rparr>,
      [StartTraceA 0 ''Mini logger'' example_block,
       ControlTraceA 0 (Some ''Mini logger'') example_block EVENT_TRACE_CONTROL_STOP,
       StartTraceA 0 ''Mini logger'' example_block])"
    using C2_collision_retry_once [OF example_block_built b d]
    by (simp add: Let_def stale_session_platform_def ERROR_SUCCESS_def
        EVENT_TRACE_CONTROL_STOP_def)
  from a b c d 1 2 example_block_built show ?thesis
    by blast
qed

section \<open>Constructing the logger\<close>

lemma Session_ctor_Inr:
  assumes "Session_ctor v plat sessionId sessionName logFileName bufferSize tr = (Inr s, tr')"
  shows "EventTracePropertiesWithBuffers_ctor v sessionId bufferSize logFileName =
           Inr (m_properties s)"
proof (cases "EventTracePropertiesWithBuffers_ctor v sessionId bufferSize logFileName")
  case (Inl e)
  with assms show ?thesis
    by (simp add: Session_ctor_def)
next
  case (Inr props)
  with assms have "Session_body v plat props sessionName tr = (Inr s, tr')"
    by (simp add: Session_ctor_def)
  then have "m_properties s = props"
    by (auto simp: Session_body_def perform_def Let_def split: if_splits sum.splits prod.splits)
  with Inr show ?thesis
    by simp
qed

lemma Impl_ctor_Inr:
  assumes "Impl_ctor plat sessionName outputFolder bufferSize tr = (Inr impl, tr')"
  shows "\<exists>t t'. Session_ctor MiniEtwLog_h plat (m_providerId impl) sessionName
              (outputFolder @ log_etl) bufferSize t = (Inr (m_session impl), t')"
  using assms
  by (fastforce simp: Impl_ctor_def MakeDirectories_def perform_def
      split: sum.splits prod.splits if_splits)

lemma Impl_part_000_ctor_Inr:
  assumes "Impl_part_000_ctor v plat sessionName outputFolder bufferSize tr = (Inr impl, tr')"
  shows "\<exists>t t'. Session_ctor v plat (m_sessionId impl) (c_str sessionName)
              (outputFolder @ log_etl) bufferSize t = (Inr (m_session impl), t')"
  using assms
  by (fastforce simp: Impl_part_000_ctor_def split: sum.splits prod.splits)


lemma Session_ctor_oversized:
  assumes "extent_SessionName < strlen sessionName \<or> extent_LogFilePath < length logFileName"
  shows "Session_ctor v plat sessionId sessionName logFileName bufferSize tr =
           (Inl assertion_failed, tr)"
proof (cases "length logFileName \<le> extent_LogFilePath")
  case True
  with assms have "\<not> strlen sessionName \<le> extent_SessionName"
    by auto
  with True show ?thesis
    by (simp add: Session_ctor_def EventTracePropertiesWithBuffers_ctor_def SetLogFilePath_def
        Session_body_def)
next
  case False
  then show ?thesis
    by (simp add: Session_ctor_def EventTracePropertiesWithBuffers_ctor_def SetLogFilePath_def)
qed

lemma MakeGuid_eq:
  "MakeGuid v plat tr =
     (if status (respond plat tr CoCreateGuid) = S_OK
      then (if v = part_000_first then Inl returned_from_noreturn
            else Inr (out_guid (respond plat tr CoCreateGuid)))
      else Inl (thrown_system_error plat (status (respond plat tr CoCreateGuid))
                  ''CoCreateGuid failed''),
      tr @ [CoCreateGuid])"
  using VerifyHResult_in_success [of v plat "status (respond plat tr CoCreateGuid)"
      "''CoCreateGuid failed''"]
  by (simp add: MakeGuid_def perform_def S_OK_def ERROR_SUCCESS_def)

lemma Provider_ctor_eq:
  "Provider_ctor v plat providerId tr =
     (if status (respond plat tr (EventRegister providerId)) = ERROR_SUCCESS
      then (if v = part_000_first then Inl returned_from_noreturn
            else Inr \<lparr>Provider_Handle =
                        out_handle (respond plat tr (EventRegister providerId))\<rparr>)
      else Inl (thrown_system_error plat (status (respond plat tr (EventRegister providerId)))
                  ''EventRegister''),
      tr @ [EventRegister providerId])"
  by (simp add: Provider_ctor_def perform_def VerifyHResult_in_success)

lemma EnabledProvider_ctor_eq:
  "EnabledProvider_ctor v plat h g tr =
     (let c = EnableTraceEx2 h g EVENT_CONTROL_CODE_ENABLE_PROVIDER TRACE_LEVEL_INFORMATION 0 0 0
      in (if status (respond plat tr c) = ERROR_SUCCESS
          then (if v = part_000_first then Inl returned_from_noreturn
                else Inr \<lparr>SessionHandle = h, EnabledProviderId = g\<rparr>)
          else Inl (thrown_system_error plat (status (respond plat tr c))
                      ''EnableTraceEx2 - enabling provider''),
          tr @ [c]))"
  by (simp add: EnabledProvider_ctor_def perform_def VerifyHResult_in_success Let_def)

lemma unwinds_thrown [simp]: "unwinds (thrown_system_error plat hresult additionalInfo)"
  by (simp add: thrown_system_error_def split: prod.splits)

lemma strlen_c_str [simp]: "strlen (c_str s) = strlen s"
  by (simp add: strlen_def c_str_def takeWhile_idem)

lemma MiniLog_ctor_oversized:
  assumes "extent_SessionName < strlen sessionName
           \<or> extent_LogFilePath < length (outputFolder @ log_etl)"
  shows "MiniLog_ctor plat sessionName outputFolder bufferSize tr =
     (let g = out_guid (respond plat tr CoCreateGuid);
          h = out_handle (respond plat (tr @ [CoCreateGuid]) (EventRegister g));
          tr2 = tr @ [CoCreateGuid, EventRegister g];
          tr3 = tr2 @ [create_directories outputFolder]
      in if status (respond plat tr CoCreateGuid) \<noteq> S_OK
         then (Inl (thrown_system_error plat (status (respond plat tr CoCreateGuid))
                      ''CoCreateGuid failed''),
               tr @ [CoCreateGuid])
         else if status (respond plat (tr @ [CoCreateGuid]) (EventRegister g)) \<noteq> ERROR_SUCCESS
         then (Inl (thrown_system_error plat
                      (status (respond plat (tr @ [CoCreateGuid]) (EventRegister g)))
                      ''EventRegister''),
               tr2)
         else if status (respond plat tr2 (create_directories outputFolder)) \<noteq> 0
         then (Inl (filesystem_error
                      (status (respond plat tr2 (create_directories outputFolder)))),
               tr3 @ [EventUnregister h])
         else (Inl assertion_failed, tr3))"
  by (simp add: MiniLog_ctor_def Impl_ctor_def MakeGuid_eq Provider_ctor_eq MakeDirectories_def
      perform_def Session_ctor_oversized [OF assms] unwind_def Provider_dtor_def Let_def)

lemma MiniLog_part_000_ctor_oversized:
  assumes "extent_SessionName < strlen sessionName
           \<or> extent_LogFilePath < length (outputFolder @ log_etl)"
  shows "MiniLog_part_000_ctor part_000_second plat sessionName outputFolder bufferSize tr =
     (if status (respond plat tr CoCreateGuid) \<noteq> S_OK
      then (Inl (thrown_system_error plat (status (respond plat tr CoCreateGuid))
                   ''CoCreateGuid failed''),
            tr @ [CoCreateGuid])
      else if status (respond plat (tr @ [CoCreateGuid]) CoCreateGuid) \<noteq> S_OK
      then (Inl (thrown_system_error plat
                   (status (respond plat (tr @ [CoCreateGuid]) CoCreateGuid))
                   ''CoCreateGuid failed''),
            tr @ [CoCreateGuid, CoCreateGuid])
      else (Inl assertion_failed, tr @ [CoCreateGuid, CoCreateGuid]))"
proof -
  from assms have "extent_SessionName < strlen (c_str sessionName)
           \<or> extent_LogFilePath < length (outputFolder @ log_etl)"
    by simp
  note over = Session_ctor_oversized [OF this]
  show ?thesis
    by (simp add: MiniLog_part_000_ctor_def Impl_part_000_ctor_def MakeGuid_eq over)
qed

text \<open>
  C7 (as the code has it). With the assertions compiled in (no \<^verbatim>\<open>NDEBUG\<close>): when the
  session name, read as a C string up to its first terminator, is longer than 256 bytes,
  or the log-file path is longer than 1024 bytes, the constructor of the session fails on
  an assertion before it makes any call of its own, in each of the three copies. The
  logger's constructor has made platform calls by then. In \<^verbatim>\<open>src/Log/MiniEtwLog.h\<close> these
  are the identity call, the registration and the creation of the directory: when the
  three succeed the construction ends in the assertion failure after exactly these three
  calls; when the identity call or the registration fails it ends in the verifier's system
  error for that call's code, and when the creation of the directory fails it ends in the
  file-system error, after the registration was undone. In the second document of
  \<^verbatim>\<open>src/unnamed/part_000\<close> these are two identity calls: when both succeed the construction
  ends in the assertion failure after exactly these two calls, and when one fails it ends
  in the verifier's system error for that call's code. In none of these cases is a session
  started, stopped or enabled, and no logger is returned.
\<close>

theorem C7_oversized_fields:
  assumes "extent_SessionName < strlen sessionName
           \<or> extent_LogFilePath < length (outputFolder @ log_etl)"
  shows "Session_ctor v plat sessionId sessionName (outputFolder @ log_etl) bufferSize tr =
           (Inl assertion_failed, tr) \<and>
         MiniLog_ctor plat sessionName outputFolder bufferSize tr =
           (let g = out_guid (respond plat tr CoCreateGuid);
                h = out_handle (respond plat (tr @ [CoCreateGuid]) (EventRegister g));
                tr2 = tr @ [CoCreateGuid, EventRegister g];
                tr3 = tr2 @ [create_directories outputFolder]
            in if status (respond plat tr CoCreateGuid) \<noteq> S_OK
               then (Inl (thrown_system_error plat (status (respond plat tr CoCreateGuid))
                            ''CoCreateGuid failed''),
                     tr @ [CoCreateGuid])
               else if status (respond plat (tr @ [CoCreateGuid]) (EventRegister g))
                         \<noteq> ERROR_SUCCESS
               then (Inl (thrown_system_error plat
                            (status (respond plat (tr @ [CoCreateGuid]) (EventRegister g)))
                            ''EventRegister''),
                     tr2)
               else if status (respond plat tr2 (create_directories outputFolder)) \<noteq> 0
               then (Inl (filesystem_error
                            (status (respond plat tr2 (create_directories outputFolder)))),
                     tr3 @ [EventUnregister h])
               else (Inl assertion_failed, tr3)) \<and>
         filter is_session_call (snd (MiniLog_ctor plat sessionName outputFolder bufferSize tr)) =
           filter is_session_call tr \<and>
         MiniLog_part_000_ctor part_000_second plat sessionName outputFolder bufferSize tr =
           (if status (respond plat tr CoCreateGuid) \<noteq> S_OK
            then (Inl (thrown_system_error plat (status (respond plat tr CoCreateGuid))
                         ''CoCreateGuid failed''),
                  tr @ [CoCreateGuid])
            else if status (respond plat (tr @ [CoCreateGuid]) CoCreateGuid) \<noteq> S_OK
            then (Inl (thrown_system_error plat
                         (status (respond plat (tr @ [CoCreateGuid]) CoCreateGuid))
                         ''CoCreateGuid failed''),
                  tr @ [CoCreateGuid, CoCreateGuid])
            else (Inl assertion_failed, tr @ [CoCreateGuid, CoCreateGuid])) \<and>
         filter is_session_call
             (snd (MiniLog_part_000_ctor part_000_second plat sessionName outputFolder
                     bufferSize tr)) =
           filter is_session_call tr"
proof -
  note h = MiniLog_ctor_oversized [OF assms, of plat bufferSize tr]
  note p = MiniLog_part_000_ctor_oversized [OF assms, of plat bufferSize tr]
  have 1: "filter is_session_call (snd (MiniLog_ctor plat sessionName outputFolder bufferSize tr)) =
      filter is_session_call tr"
    by (simp add: h Let_def)
  have 2: "filter is_session_call
      (snd (MiniLog_part_000_ctor part_000_second plat sessionName outputFolder bufferSize tr)) =
      filter is_session_call tr"
    by (simp add: p)
  from Session_ctor_oversized [OF assms] h 1 p 2 show ?thesis
    by blast
qed

lemma strlen_long_name: "strlen (replicate 257 CHR ''a'') = 257"
  by (simp add: strlen_def NUL_def takeWhile_replicate)

theorem C7_oversized_fields_witness:
  "(extent_SessionName < strlen (replicate 257 CHR ''a'')
      \<or> extent_LogFilePath < length (''out'' @ log_etl)) \<and>
   Session_ctor part_000_first succeeding_platform 0x1234 (replicate 257 CHR ''a'')
       (''out'' @ log_etl) 20000 [] =
     (Inl assertion_failed, []) \<and>
   MiniLog_ctor succeeding_platform (replicate 257 CHR ''a'') ''out'' 20000 [] =
     (Inl assertion_failed, [CoCreateGuid, EventRegister 0x1234, create_directories ''out'']) \<and>
   MiniLog_part_000_ctor part_000_second succeeding_platform (replicate 257 CHR ''a'') ''out''
       20000 [] =
     (Inl assertion_failed, [CoCreateGuid, CoCreateGuid]) \<and>
   MiniLog_ctor unformatted_platform (replicate 257 CHR ''a'') ''out'' 20000 [] =
     (Inl (system_error 5 ''Access is denied. CoCreateGuid failed''), [CoCreateGuid]) \<and>
   MiniLog_part_000_ctor part_000_second unformatted_platform (replicate 257 CHR ''a'') ''out''
       20000 [] =
     (Inl (system_error 5 ''Access is denied. CoCreateGuid failed''), [CoCreateGuid])"
proof -
  have a: "extent_SessionName < strlen (replicate 257 CHR ''a'')
      \<or> extent_LogFilePath < length (''out'' @ log_etl)"
    by (simp add: strlen_long_name extent_SessionName_def)
  note s = C7_oversized_fields [OF a, of part_000_first succeeding_platform "0x1234" 20000 "[]"]
  note u = C7_oversized_fields [OF a, of part_000_first unformatted_platform "0x1234" 20000 "[]"]
  have t: "thrown_system_error unformatted_platform 5 ''CoCreateGuid failed'' =
      system_error 5 ''Access is denied. CoCreateGuid failed''"
    by (simp add: thrown_system_error_def unformatted_platform_def)
  have 1: "Session_ctor part_000_first succeeding_platform 0x1234 (replicate 257 CHR ''a'')
       (''out'' @ log_etl) 20000 [] = (Inl assertion_failed, [])"
    using s by blast
  have 2: "MiniLog_ctor succeeding_platform (replicate 257 CHR ''a'') ''out'' 20000 [] =
     (Inl assertion_failed, [CoCreateGuid, EventRegister 0x1234, create_directories ''out''])"
    using s by (simp add: succeeding_platform_def S_OK_def ERROR_SUCCESS_def Let_def)
  have 3: "MiniLog_part_000_ctor part_000_second succeeding_platform (replicate 257 CHR ''a'')
       ''out'' 20000 [] = (Inl assertion_failed, [CoCreateGuid, CoCreateGuid])"
    using s by (simp add: succeeding_platform_def S_OK_def ERROR_SUCCESS_def Let_def)
  have 4: "MiniLog_ctor unformatted_platform (replicate 257 CHR ''a'') ''out'' 20000 [] =
     (Inl (system_error 5 ''Access is denied. CoCreateGuid failed''), [CoCreateGuid])"
    using u t by (simp add: unformatted_platform_def S_OK_def Let_def)
  have 5: "MiniLog_part_000_ctor part_000_second unformatted_platform
       (replicate 257 CHR ''a'') ''out'' 20000 [] =
     (Inl (system_error 5 ''Access is denied. CoCreateGuid failed''), [CoCreateGuid])"
    using u t by (simp add: unformatted_platform_def S_OK_def Let_def)
  from a 1 2 3 4 5 show ?thesis
    by blast
qed

text \<open>
  With a name of 257 bytes the constructor of \<^verbatim>\<open>src/Log/MiniEtwLog.h\<close> fails on the
  assertion after three platform calls, not before any.
\<close>

theorem C7_oversized_fields_counterexample:
  "MiniLog_ctor succeeding_platform (replicate 257 CHR ''a'') ''out'' 20000 [] =
     (Inl assertion_failed, [CoCreateGuid, EventRegister 0x1234, create_directories ''out''])"
proof -
  have a: "extent_SessionName < strlen (replicate 257 CHR ''a'')
      \<or> extent_LogFilePath < length (''out'' @ log_etl)"
    by (simp add: strlen_long_name extent_SessionName_def)
  show ?thesis
    by (simp add: MiniLog_ctor_oversized [OF a] succeeding_platform_def S_OK_def
        ERROR_SUCCESS_def)
qed

lemma c_str_Mini_logger: "c_str ''Mini logger'' = ''Mini logger''"
  by (simp add: c_str_def NUL_def)

lemma Impl_ctor_example:
  "Impl_ctor succeeding_platform ''Mini logger'' ''out'' 20000 [] =
     (Inr example_impl,
      [CoCreateGuid, EventRegister 0x1234, create_directories ''out'',
       StartTraceA 0 ''Mini logger'' example_block,
       EnableTraceEx2 7 0x1234 EVENT_CONTROL_CODE_ENABLE_PROVIDER TRACE_LEVEL_INFORMATION
         0 0 0])"
proof -
  have s: "Session_ctor MiniEtwLog_h succeeding_platform 0x1234 ''Mini logger''
      (''out'' @ log_etl) 20000 [CoCreateGuid, EventRegister 0x1234, create_directories ''out''] =
     (Inr \<lparr>Handle = 7, m_properties = example_block\<rparr>,
      [CoCreateGuid, EventRegister 0x1234, create_directories ''out'',
       StartTraceA 0 ''Mini logger'' example_block])"
    using example_block_built
    by (simp add: Session_ctor_def Session_body_no_collision strlen_Mini_logger
        extent_SessionName_def succeeding_platform_def ERROR_ALREADY_EXISTS_def
        ERROR_SUCCESS_def Let_def)
  show ?thesis
    using s
    by (simp add: Impl_ctor_def MakeGuid_eq Provider_ctor_eq MakeDirectories_def perform_def
        EnableProvider_def EnabledProvider_ctor_eq Let_def example_impl_def
        succeeding_platform_def S_OK_def ERROR_SUCCESS_def)
qed

lemma Impl_part_000_ctor_example:
  "Impl_part_000_ctor part_000_second succeeding_platform ''Mini logger'' ''out'' 20000 [] =
     (Inr example_impl_part_000,
      [CoCreateGuid, CoCreateGuid, StartTraceA 0 ''Mini logger'' example_block_part_000,
       EnableTraceEx2 7 0x1235 EVENT_CONTROL_CODE_ENABLE_PROVIDER TRACE_LEVEL_INFORMATION
         0 0 0,
       EventRegister 0x1235])"
proof -
  have s: "Session_ctor part_000_second succeeding_platform 0x1234 ''Mini logger''
      (''out'' @ log_etl) 20000 [CoCreateGuid, CoCreateGuid] =
     (Inr \<lparr>Handle = 7, m_properties = example_block_part_000\<rparr>,
      [CoCreateGuid, CoCreateGuid, StartTraceA 0 ''Mini logger'' example_block_part_000])"
    using example_block_part_000_built(2) [of "0x1234"]
    by (simp add: Session_ctor_def Session_body_no_collision strlen_Mini_logger
        extent_SessionName_def succeeding_platform_def ERROR_ALREADY_EXISTS_def
        ERROR_SUCCESS_def Let_def)
  show ?thesis
    using s
    by (simp add: Impl_part_000_ctor_def MakeGuid_eq Provider_ctor_eq c_str_Mini_logger
        EnableProvider_def EnabledProvider_ctor_eq Let_def example_impl_part_000_def
        succeeding_platform_def S_OK_def ERROR_SUCCESS_def)
qed

text \<open>
  C9. In both documents of \<^verbatim>\<open>src/unnamed/part_000\<close> the constructor of the control block
  ignores its \<^verbatim>\<open>sessionId\<close> parameter: the block it returns is the same for every identity
  and its identity field is zero, so the session identity the logger generated is not in
  the control block of its session. In \<^verbatim>\<open>src/Log/MiniEtwLog.h\<close> the constructor stores the
  identity it is given, and the logger gives it the provider's identity.
\<close>

theorem C9_identity_field:
  "EventTracePropertiesWithBuffers_ctor part_000_first sessionId bufferSize logFilePath =
     EventTracePropertiesWithBuffers_ctor part_000_first sessionId' bufferSize logFilePath \<and>
   EventTracePropertiesWithBuffers_ctor part_000_second sessionId bufferSize logFilePath =
     EventTracePropertiesWithBuffers_ctor part_000_second sessionId' bufferSize logFilePath \<and>
   (v \<noteq> MiniEtwLog_h \<and>
    EventTracePropertiesWithBuffers_ctor v sessionId bufferSize logFilePath = Inr block \<longrightarrow>
      Wnode_Guid (Wnode (Properties block)) = 0) \<and>
   (EventTracePropertiesWithBuffers_ctor MiniEtwLog_h sessionId bufferSize logFilePath =
      Inr block \<longrightarrow>
      Wnode_Guid (Wnode (Properties block)) = sessionId) \<and>
   (v \<noteq> MiniEtwLog_h \<and>
    Impl_part_000_ctor v plat sessionName outputFolder bufferSize tr = (Inr impl', tr') \<longrightarrow>
      Wnode_Guid (Wnode (Properties (m_properties (m_session impl')))) = 0) \<and>
   (Impl_ctor plat sessionName outputFolder bufferSize tr = (Inr impl, tr'') \<longrightarrow>
      Wnode_Guid (Wnode (Properties (m_properties (m_session impl)))) = m_providerId impl)"
proof -
  have ignore1: "EventTracePropertiesWithBuffers_ctor part_000_first sessionId bufferSize
      logFilePath =
     EventTracePropertiesWithBuffers_ctor part_000_first sessionId' bufferSize logFilePath"
    by (simp add: EventTracePropertiesWithBuffers_ctor_def
        EventTracePropertiesWithBuffers_init_part_000_def)
  have ignore2: "EventTracePropertiesWithBuffers_ctor part_000_second sessionId bufferSize
      logFilePath =
     EventTracePropertiesWithBuffers_ctor part_000_second sessionId' bufferSize logFilePath"
    by (simp add: EventTracePropertiesWithBuffers_ctor_def
        EventTracePropertiesWithBuffers_init_part_000_def)
  have zero: "Wnode_Guid (Wnode (Properties b)) = 0"
    if "w \<noteq> MiniEtwLog_h" "EventTracePropertiesWithBuffers_ctor w sid bufferSize path = Inr b"
    for w sid path b
    using ctor_Inr [OF that(2)] that(1)
    by (cases w)
      (simp_all add: EventTracePropertiesWithBuffers_init_part_000_def ZeroMemory_def)
  have stored: "Wnode_Guid (Wnode (Properties b)) = sid"
    if "EventTracePropertiesWithBuffers_ctor MiniEtwLog_h sid bufferSize path = Inr b"
    for sid path b
    using ctor_Inr [OF that]
    by (simp add: EventTracePropertiesWithBuffers_init_h_def)
  have part: "Wnode_Guid (Wnode (Properties (m_properties (m_session impl')))) = 0"
    if "v \<noteq> MiniEtwLog_h"
      "Impl_part_000_ctor v plat sessionName outputFolder bufferSize tr = (Inr impl', tr')"
  proof -
    from Impl_part_000_ctor_Inr [OF that(2)] obtain t t' where
      "Session_ctor v plat (m_sessionId impl') (c_str sessionName) (outputFolder @ log_etl)
         bufferSize t = (Inr (m_session impl'), t')"
      by blast
    from zero [OF that(1) Session_ctor_Inr [OF this]] show ?thesis .
  qed
  have head: "Wnode_Guid (Wnode (Properties (m_properties (m_session impl)))) =
      m_providerId impl"
    if "Impl_ctor plat sessionName outputFolder bufferSize tr = (Inr impl, tr'')"
  proof -
    from Impl_ctor_Inr [OF that] obtain t t' where
      "Session_ctor MiniEtwLog_h plat (m_providerId impl) sessionName (outputFolder @ log_etl)
         bufferSize t = (Inr (m_session impl), t')"
      by blast
    from stored [OF Session_ctor_Inr [OF this]] show ?thesis .
  qed
  from ignore1 ignore2 zero stored part head show ?thesis
    by blast
qed

theorem C9_identity_field_witness:
  "part_000_second \<noteq> MiniEtwLog_h \<and>
   EventTracePropertiesWithBuffers_ctor part_000_second 0x1234 20000 (''out'' @ log_etl) =
     Inr example_block_part_000 \<and>
   Wnode_Guid (Wnode (Properties example_block_part_000)) = 0 \<and>
   EventTracePropertiesWithBuffers_ctor MiniEtwLog_h 0x1234 20000 (''out'' @ log_etl) =
     Inr example_block \<and>
   Wnode_Guid (Wnode (Properties example_block)) = 0x1234 \<and>
   Impl_part_000_ctor part_000_second succeeding_platform ''Mini logger'' ''out'' 20000 [] =
     (Inr example_impl_part_000,
      [CoCreateGuid, CoCreateGuid, StartTraceA 0 ''Mini logger'' example_block_part_000,
       EnableTraceEx2 7 0x1235 EVENT_CONTROL_CODE_ENABLE_PROVIDER TRACE_LEVEL_INFORMATION
         0 0 0,
       EventRegister 0x1235]) \<and>
   m_sessionId example_impl_part_000 = 0x1234 \<and>
   Wnode_Guid (Wnode (Properties (m_properties (m_session example_impl_part_000)))) = 0 \<and>
   Impl_ctor succeeding_platform ''Mini logger'' ''out'' 20000 [] =
     (Inr example_impl,
      [CoCreateGuid, EventRegister 0x1234, create_directories ''out'',
       StartTraceA 0 ''Mini logger'' example_block,
       EnableTraceEx2 7 0x1234 EVENT_CONTROL_CODE_ENABLE_PROVIDER TRACE_LEVEL_INFORMATION
         0 0 0]) \<and>
   Wnode_Guid (Wnode (Properties (m_properties (m_session example_impl)))) =
     m_providerId example_impl"
proof -
  have v: "part_000_second \<noteq> MiniEtwLog_h"
    by simp
  note p = Impl_part_000_ctor_example
  note h = Impl_ctor_example
  note b = example_block_part_000_built(2) [of "0x1234"]
  note c = example_block_built
  note inst = C9_identity_field [where v = part_000_second and sessionId = "0x1234"
      and bufferSize = 20000 and logFilePath = "''out'' @ log_etl"
      and plat = succeeding_platform and sessionName = "''Mini logger''"
      and outputFolder = "''out''" and tr = "[]" and impl' = example_impl_part_000
      and impl = example_impl]
  note inst1 = inst [where block = example_block_part_000]
  note inst2 = inst [where block = example_block]
  have 1: "Wnode_Guid (Wnode (Properties example_block_part_000)) = 0"
    using inst1 v b by blast
  have 2: "Wnode_Guid (Wnode (Properties example_block)) = 0x1234"
    using inst2 c by blast
  have 3: "Wnode_Guid (Wnode (Properties (m_properties (m_session example_impl_part_000)))) = 0"
    using inst1 v p by blast
  have 4: "Wnode_Guid (Wnode (Properties (m_properties (m_session example_impl)))) =
      m_providerId example_impl"
    using inst2 h by blast
  have 5: "m_sessionId example_impl_part_000 = 0x1234"
    by (simp add: example_impl_part_000_def)
  from v b c p h 1 2 3 4 5 show ?thesis
    by blast
qed

section \<open>Teardown\<close>

lemmas teardown_defs =
  MiniLog_dtor_def MiniLog_part_000_dtor_def Impl_dtor_def Impl_part_000_dtor_def
  Provider_dtor_def Session_dtor_def DestroySession_def EnabledProvider_dtor_def perform_def

text \<open>
  C1 (as the code has it). Destroying a logger that owns its implementation object never
  raises and makes exactly three calls, whose answers are ignored. In
  \<^verbatim>\<open>src/Log/MiniEtwLog.h\<close> the order is: disable the enablement, stop the session,
  unregister the registration. In both documents of \<^verbatim>\<open>src/unnamed/part_000\<close> the order is
  the reverse of that copy's construction order: unregister the registration, disable the
  enablement, stop the session. In every copy the enablement is disabled before the
  session is stopped.
\<close>

theorem C1_teardown_order:
  "MiniLog_dtor plat \<lparr>m_impl = Some impl\<rparr> tr =
     (Inr (),
      tr @ [EnableTraceEx2 (SessionHandle (m_enabledProvider impl))
              (EnabledProviderId (m_enabledProvider impl))
              EVENT_CONTROL_CODE_DISABLE_PROVIDER TRACE_LEVEL_INFORMATION 0 0 0,
            ControlTraceA (Handle (m_session impl)) None (m_properties (m_session impl))
              EVENT_TRACE_CONTROL_STOP,
            EventUnregister (Provider_Handle (m_provider impl))]) \<and>
   MiniLog_part_000_dtor plat \<lparr>m_impl = Some impl'\<rparr> tr =
     (Inr (),
      tr @ [EventUnregister (Provider_Handle (m_provider impl')),
            EnableTraceEx2 (SessionHandle (m_enabledProvider impl'))
              (EnabledProviderId (m_enabledProvider impl'))
              EVENT_CONTROL_CODE_DISABLE_PROVIDER TRACE_LEVEL_INFORMATION 0 0 0,
            ControlTraceA (Handle (m_session impl')) None (m_properties (m_session impl'))
              EVENT_TRACE_CONTROL_STOP])"
  by (simp add: teardown_defs)

text \<open>
  In \<^verbatim>\<open>src/unnamed/part_000\<close> the registration is undone first, before the enablement: the
  order disable, stop, unregister is not the order of that copy.
\<close>

theorem C1_teardown_order_counterexample:
  "snd (MiniLog_part_000_dtor succeeding_platform \<lparr>m_impl = Some example_impl_part_000\<rparr> []) =
     [EventUnregister 9,
      EnableTraceEx2 7 0x1235 EVENT_CONTROL_CODE_DISABLE_PROVIDER TRACE_LEVEL_INFORMATION 0 0 0,
      ControlTraceA 7 None example_block_part_000 EVENT_TRACE_CONTROL_STOP] \<and>
   snd (MiniLog_part_000_dtor succeeding_platform \<lparr>m_impl = Some example_impl_part_000\<rparr> []) \<noteq>
     [EnableTraceEx2 7 0x1235 EVENT_CONTROL_CODE_DISABLE_PROVIDER TRACE_LEVEL_INFORMATION 0 0 0,
      ControlTraceA 7 None example_block_part_000 EVENT_TRACE_CONTROL_STOP,
      EventUnregister 9]"
  by (simp add: teardown_defs example_impl_part_000_def)

section \<open>Moved-from loggers\<close>

text \<open>
  C10. In \<^verbatim>\<open>src/Log/MiniEtwLog.h\<close>, after a move construction or a move assignment the
  source's implementation pointer is null and the target holds the pointer the source
  held. Emitting through the moved-from logger dereferences the null pointer and reaches
  no platform call; destroying the moved-from logger makes no call and returns. A logger
  that owns its implementation object emits through \<^verbatim>\<open>Write\<close>.
\<close>

theorem C10_moved_from:
  "m_impl (fst (MiniLog_move other)) = m_impl other \<and>
   m_impl (snd (MiniLog_move other)) = None \<and>
   MiniLog_call MiniEtwLog_h plat (snd (MiniLog_move other)) message tr =
     (Inl null_dereference, tr) \<and>
   MiniLog_dtor plat (snd (MiniLog_move other)) tr = (Inr (), tr) \<and>
   m_impl (fst (fst (MiniLog_move_assign plat this other tr))) = m_impl other \<and>
   m_impl (snd (fst (MiniLog_move_assign plat this other tr))) = None \<and>
   MiniLog_call MiniEtwLog_h plat (snd (fst (MiniLog_move_assign plat this other tr)))
       message tr' =
     (Inl null_dereference, tr') \<and>
   MiniLog_dtor plat (snd (fst (MiniLog_move_assign plat this other tr))) tr' = (Inr (), tr') \<and>
   MiniLog_call MiniEtwLog_h plat \<lparr>m_impl = Some impl\<rparr> message tr =
     Write MiniEtwLog_h plat impl message tr"
  by (simp add: MiniLog_move_def MiniLog_move_assign_def MiniLog_call_def MiniLog_dtor_def)

end
